theory Spec2Isabelle
  imports Complex_Main "HOL-Library.Multiset"
begin

section \<open>Common types\<close>

text \<open>
  Timestamps are \<^verbatim>\<open>datetime\<close> values, which have microsecond resolution: a timestamp is
  the number of microseconds since the epoch, and \<^verbatim>\<open>(a - b).total_seconds()\<close> compared
  with a whole number of seconds \<open>n\<close> is the difference \<open>a - b\<close> compared with
  \<open>seconds n\<close>.
\<close>

type_synonym timestamp = int

definition seconds :: "int \<Rightarrow> int" where
  "seconds n = n * 1000000"

text \<open>
  Exceptions are values. \<open>MatchTradeAPIError\<close> is the upstream client's own exception
  class; every other exception (database, driver, transport) is caught in the source only
  by \<^verbatim>\<open>except Exception\<close>, so one constructor per origin is enough. The string is
  \<^verbatim>\<open>str(e)\<close>.
\<close>

datatype exn =
    MatchTradeAPIError string
  | DBError string
  | MultipleResultsFound
  | KeyError string
  | TransportError string

fun str_exn :: "exn \<Rightarrow> string" where
  "str_exn (MatchTradeAPIError m) = m"
| "str_exn (DBError m) = m"
| "str_exn MultipleResultsFound = ''Multiple rows were found when one or none was required''"
| "str_exn (KeyError k) = k"
| "str_exn (TransportError m) = m"

text \<open>Python truthiness of an optional string: \<^verbatim>\<open>None\<close> and \<^verbatim>\<open>""\<close> are falsy.\<close>

fun truthy :: "string option \<Rightarrow> bool" where
  "truthy None = False"
| "truthy (Some s) = (s \<noteq> [])"

text \<open>\<^verbatim>\<open>a or b\<close> on optional strings.\<close>

definition py_or :: "string option \<Rightarrow> string option \<Rightarrow> string option" where
  "py_or a b = (if truthy a then a else b)"

text \<open>\<^verbatim>\<open>float(a or b)\<close> for an optional number \<open>a\<close>: \<^verbatim>\<open>None\<close> and \<^verbatim>\<open>0\<close> are falsy.\<close>

definition num_or :: "real option \<Rightarrow> real \<Rightarrow> real" where
  "num_or a b = (case a of None \<Rightarrow> b | Some x \<Rightarrow> if x = 0 then b else x)"


section \<open>Event bus: \<^verbatim>\<open>app/services/websocket_manager.py\<close>, \<^verbatim>\<open>app/api/websocket.py\<close>\<close>

text \<open>
  A WebSocket object is identified by a number. The transport is outside the repository:
  what a socket answers is an oracle. \<open>send_json\<close> tells how an attempt to send ends:
  it completes in time, it does not complete within the 5 s deadline, or it raises.
  \<open>client_state\<close> is \<^verbatim>\<open>connection.client_state\<close>, \<open>None\<close> when the object has no such
  attribute (the \<^verbatim>\<open>hasattr\<close> test of \<^verbatim>\<open>broadcast\<close>).
\<close>

type_synonym ws = nat

datatype ws_state = CONNECTING | CONNECTED | DISCONNECTED

datatype send_outcome = Sent | Slow | Raises

type_synonym message = "(string \<times> string) list"

record transport =
  accept :: "ws \<Rightarrow> bool"
  client_state :: "ws \<Rightarrow> ws_state option"
  send_json :: "ws \<Rightarrow> message \<Rightarrow> send_outcome"
  utcnow_iso :: string

record metadata =
  md_channel :: string
  md_connected_at :: string
  md_messages_sent :: nat

text \<open>
  \<^verbatim>\<open>ConnectionManager\<close>. The dict \<open>channels\<close> is an association list in insertion
  order; each Python set of sockets is a list without repetitions, whose order stands for
  the iteration order of the set. \<open>connection_metadata\<close> is a dict keyed by socket.
\<close>

record connection_manager =
  active_connections :: "ws list"
  channels :: "(string \<times> ws list) list"
  connection_metadata :: "ws \<rightharpoonup> metadata"

definition init_manager :: connection_manager where
  "init_manager = \<lparr> active_connections = [],
     channels = [(''dashboard'', []), (''trading'', []), (''positions'', []),
                 (''sessions'', []), (''all'', [])],
     connection_metadata = Map.empty \<rparr>"

text \<open>\<^verbatim>\<open>self.channels[ch].add(w)\<close> and \<^verbatim>\<open>self.channels[ch].discard(w)\<close> for an existing key.\<close>

definition map_channels :: "(string \<Rightarrow> ws list \<Rightarrow> ws list) \<Rightarrow> (string \<times> ws list) list \<Rightarrow> (string \<times> ws list) list" where
  "map_channels g chs = map (\<lambda>(k, S). (k, g k S)) chs"

definition channel_add :: "string \<Rightarrow> ws \<Rightarrow> (string \<times> ws list) list \<Rightarrow> (string \<times> ws list) list" where
  "channel_add ch w chs = map_channels (\<lambda>k S. if k = ch then List.insert w S else S) chs"

definition channel_discard :: "string \<Rightarrow> ws \<Rightarrow> (string \<times> ws list) list \<Rightarrow> (string \<times> ws list) list" where
  "channel_discard ch w chs = map_channels (\<lambda>k S. if k = ch then removeAll w S else S) chs"

definition bump_sent :: "ws \<Rightarrow> connection_manager \<Rightarrow> connection_manager" where
  "bump_sent w s =
     (case connection_metadata s w of
        None \<Rightarrow> s
      | Some md \<Rightarrow> s\<lparr>connection_metadata :=
                      (connection_metadata s)(w \<mapsto> md\<lparr>md_messages_sent := md_messages_sent md + 1\<rparr>)\<rparr>)"

definition disconnect :: "ws \<Rightarrow> connection_manager \<Rightarrow> connection_manager" where
  "disconnect w s =
     s\<lparr> active_connections := remove1 w (active_connections s),
        channels := map_channels (\<lambda>k S. removeAll w S) (channels s),
        connection_metadata := (connection_metadata s)(w := None) \<rparr>"

text \<open>
  \<^verbatim>\<open>send_personal_message\<close> awaits \<^verbatim>\<open>send_json\<close> with no deadline: a slow send is
  awaited to its end and counts as sent; only an exception removes the socket.
\<close>

definition send_personal_message :: "transport \<Rightarrow> message \<Rightarrow> ws \<Rightarrow> connection_manager \<Rightarrow> connection_manager" where
  "send_personal_message tr m w s =
     (case send_json tr w m of
        Raises \<Rightarrow> disconnect w s
      | _ \<Rightarrow> bump_sent w s)"

text \<open>
  \<^verbatim>\<open>connect\<close>. The result is the exception that escapes, if any, and the manager as the
  call leaves it: \<^verbatim>\<open>accept()\<close> raises before anything is changed, and
  \<^verbatim>\<open>self.channels["all"]\<close> raises \<^verbatim>\<open>KeyError\<close> when the key is missing.
\<close>

definition connect :: "transport \<Rightarrow> ws \<Rightarrow> string \<Rightarrow> connection_manager \<Rightarrow> exn option \<times> connection_manager" where
  "connect tr w channel s =
     (if \<not> accept tr w then (Some (TransportError ''accept''), s)
      else
        let s1 = s\<lparr>active_connections := active_connections s @ [w]\<rparr>;
            s2 = (if map_of (channels s1) channel = None
                  then s1\<lparr>channels := channels s1 @ [(channel, [])]\<rparr> else s1);
            s3 = s2\<lparr>channels := channel_add channel w (channels s2)\<rparr>
        in case map_of (channels s3) ''all'' of
             None \<Rightarrow> (Some (KeyError ''all''), s3)
           | Some _ \<Rightarrow>
               let s4 = s3\<lparr>channels := channel_add ''all'' w (channels s3)\<rparr>;
                   s5 = s4\<lparr>connection_metadata := (connection_metadata s4)(w \<mapsto>
                          \<lparr>md_channel = channel, md_connected_at = utcnow_iso tr,
                           md_messages_sent = 0\<rparr>)\<rparr>
               in (None, send_personal_message tr
                     [(''type'', ''connection''), (''status'', ''connected''),
                      (''channel'', channel), (''timestamp'', utcnow_iso tr)] w s5))"

text \<open>
  \<^verbatim>\<open>_send_with_timeout\<close>: \<^verbatim>\<open>True\<close> when sent, \<^verbatim>\<open>False\<close> on
  \<^verbatim>\<open>asyncio.TimeoutError\<close>, any other exception is raised again.
\<close>

definition send_with_timeout :: "transport \<Rightarrow> ws \<Rightarrow> message \<Rightarrow> exn + bool" where
  "send_with_timeout tr c m =
     (case send_json tr c m of
        Sent \<Rightarrow> Inr True
      | Slow \<Rightarrow> Inr False
      | Raises \<Rightarrow> Inl (TransportError ''send''))"

definition sendable :: "transport \<Rightarrow> ws \<Rightarrow> bool" where
  "sendable tr c = (client_state tr c = None \<or> client_state tr c = Some CONNECTED)"

text \<open>
  \<^verbatim>\<open>broadcast\<close>. The first loop sorts the channel's sockets into \<open>valid_connections\<close>
  (a send task each) and \<open>disconnected\<close>; \<^verbatim>\<open>asyncio.gather(..., return_exceptions=True)\<close>
  gives one result per task, an exception being a result; the second loop appends the
  sockets whose result is an exception to \<open>disconnected\<close> and counts a message for those
  whose result is \<^verbatim>\<open>True\<close>; the last loop disconnects every socket of \<open>disconnected\<close>.
  Reading \<^verbatim>\<open>client_state\<close> does not raise, so the \<^verbatim>\<open>except\<close> of the first loop has no
  branch here.
\<close>

definition count_sent :: "ws \<times> (exn + bool) \<Rightarrow> connection_manager \<Rightarrow> connection_manager" where
  "count_sent cr st = (case snd cr of Inr True \<Rightarrow> bump_sent (fst cr) st | _ \<Rightarrow> st)"

definition stamp :: "transport \<Rightarrow> message \<Rightarrow> message" where
  "stamp tr message = (if ''timestamp'' \<in> set (map fst message) then message
                       else message @ [(''timestamp'', utcnow_iso tr)])"

definition broadcast_results :: "transport \<Rightarrow> message \<Rightarrow> ws list \<Rightarrow> (ws \<times> (exn + bool)) list" where
  "broadcast_results tr message connections =
     (let valid_connections = filter (sendable tr) connections
      in zip valid_connections (map (\<lambda>c. send_with_timeout tr c message) valid_connections))"

definition broadcast_disconnected :: "transport \<Rightarrow> message \<Rightarrow> ws list \<Rightarrow> ws list" where
  "broadcast_disconnected tr message connections =
     filter (\<lambda>c. \<not> sendable tr c) connections @
     map fst (filter (\<lambda>cr. isl (snd cr)) (broadcast_results tr message connections))"

definition broadcast :: "transport \<Rightarrow> message \<Rightarrow> string \<Rightarrow> connection_manager \<Rightarrow> connection_manager" where
  "broadcast tr message0 channel s =
     (case map_of (channels s) channel of
        None \<Rightarrow> s
      | Some connections \<Rightarrow>
          if connections = [] then s
          else fold disconnect (broadcast_disconnected tr (stamp tr message0) connections)
                 (fold count_sent (broadcast_results tr (stamp tr message0) connections) s))"

text \<open>
  One message of a client, as \<^verbatim>\<open>websocket_endpoint\<close> reads it after \<^verbatim>\<open>json.loads\<close>:
  its \<^verbatim>\<open>type\<close> and, for subscribe and unsubscribe, its \<^verbatim>\<open>channel\<close> field.
\<close>

datatype client_message =
    Ping "string option"
  | Subscribe "string option"
  | Unsubscribe "string option"
  | GetStatistics
  | Unknown "string option"
  | InvalidJSON

text \<open>
  The body of the receive loop. The statistics payload is left out of the reply: the
  manager does not depend on what a message carries.
\<close>

fun handle_message :: "transport \<Rightarrow> ws \<Rightarrow> client_message \<Rightarrow> connection_manager \<Rightarrow> connection_manager" where
  "handle_message tr w (Ping ts) s =
     send_personal_message tr [(''type'', ''pong''), (''timestamp'', case ts of None \<Rightarrow> ''null'' | Some t \<Rightarrow> t)] w s"
| "handle_message tr w (Subscribe new_channel) s =
     (if truthy new_channel \<and> map_of (channels s) (the new_channel) \<noteq> None
      then send_personal_message tr
             [(''type'', ''subscribed''), (''channel'', the new_channel),
              (''message'', ''Subscribed to '' @ the new_channel)] w
             (s\<lparr>channels := channel_add (the new_channel) w (channels s)\<rparr>)
      else s)"
| "handle_message tr w (Unsubscribe old_channel) s =
     (if truthy old_channel \<and> map_of (channels s) (the old_channel) \<noteq> None
      then send_personal_message tr
             [(''type'', ''unsubscribed''), (''channel'', the old_channel),
              (''message'', ''Unsubscribed from '' @ the old_channel)] w
             (s\<lparr>channels := channel_discard (the old_channel) w (channels s)\<rparr>)
      else s)"
| "handle_message tr w GetStatistics s =
     send_personal_message tr [(''type'', ''statistics'')] w s"
| "handle_message tr w (Unknown t) s =
     send_personal_message tr
       [(''type'', ''error''),
        (''error'', ''Unknown message type: '' @ (case t of None \<Rightarrow> ''None'' | Some x \<Rightarrow> x))] w s"
| "handle_message tr w InvalidJSON s =
     send_personal_message tr [(''type'', ''error''), (''error'', ''Invalid JSON'')] w s"

text \<open>The operations of the bus, and one step of it.\<close>

datatype bus_op =
    OpConnect ws string
  | OpDisconnect ws
  | OpMessage ws client_message
  | OpPublish message string

fun bus_step :: "transport \<Rightarrow> bus_op \<Rightarrow> connection_manager \<Rightarrow> connection_manager" where
  "bus_step tr (OpConnect w ch) s = snd (connect tr w ch s)"
| "bus_step tr (OpDisconnect w) s = disconnect w s"
| "bus_step tr (OpMessage w m) s = handle_message tr w m s"
| "bus_step tr (OpPublish m ch) s = broadcast tr m ch s"

text \<open>The members of a channel; a socket is in some channel; invariant E2.\<close>

definition members :: "connection_manager \<Rightarrow> string \<Rightarrow> ws list" where
  "members s ch = (case map_of (channels s) ch of None \<Rightarrow> [] | Some S \<Rightarrow> S)"

definition in_some_channel :: "connection_manager \<Rightarrow> ws \<Rightarrow> bool" where
  "in_some_channel s w = list_ex (\<lambda>(k, S). w \<in> set S) (channels s)"

definition E2 :: "connection_manager \<Rightarrow> bool" where
  "E2 s = list_all (\<lambda>(k, S). list_all (\<lambda>w. w \<in> set (members s ''all'')) S) (channels s)"

definition has_all :: "connection_manager \<Rightarrow> bool" where
  "has_all s = (map_of (channels s) ''all'' \<noteq> None)"

text \<open>
  The operations under which E2 is kept: everything but an unsubscribe from \<open>all\<close>, and
  but a subscribe by a socket that is not in \<open>all\<close> (unless it subscribes to \<open>all\<close>).
\<close>

fun keeps_all :: "connection_manager \<Rightarrow> bus_op \<Rightarrow> bool" where
  "keeps_all s (OpMessage w (Unsubscribe ch)) = (ch \<noteq> Some ''all'')"
| "keeps_all s (OpMessage w (Subscribe ch)) = (w \<in> set (members s ''all'') \<or> ch = Some ''all'')"
| "keeps_all s _ = True"

text \<open>Concrete transports and states for the examples.\<close>

definition slow_transport :: transport where
  "slow_transport = \<lparr> accept = (\<lambda>w. True), client_state = (\<lambda>w. Some CONNECTED),
     send_json = (\<lambda>w m. if w = 12 then Slow else Sent), utcnow_iso = ''2024-01-01T00:00:00'' \<rparr>"

definition failing_transport :: transport where
  "failing_transport = \<lparr> accept = (\<lambda>w. True), client_state = (\<lambda>w. Some CONNECTED),
     send_json = (\<lambda>w m. if w = 12 then Raises else Sent), utcnow_iso = ''2024-01-01T00:00:00'' \<rparr>"

definition good_transport :: transport where
  "good_transport = \<lparr> accept = (\<lambda>w. True), client_state = (\<lambda>w. Some CONNECTED),
     send_json = (\<lambda>w m. Sent), utcnow_iso = ''2024-01-01T00:00:00'' \<rparr>"

definition heartbeat :: message where
  "heartbeat = [(''type'', ''heartbeat'')]"

text \<open>Three sockets connected to \<open>trading\<close> over a transport on which all sends succeed.\<close>

definition three_subscribers :: connection_manager where
  "three_subscribers =
     snd (connect good_transport 12 ''trading''
       (snd (connect good_transport 11 ''trading''
         (snd (connect good_transport 10 ''trading'' init_manager)))))"

definition one_subscriber :: connection_manager where
  "one_subscriber = snd (connect good_transport 10 ''trading'' init_manager)"


section \<open>Position sizing: \<^verbatim>\<open>OrderOrchestrator._calculate_position_size\<close>\<close>

text \<open>
  The balance dict of the upstream; only its \<^verbatim>\<open>balance\<close> key is read, with default 0.
  Volumes and balances are Python floats; the function compares them and returns one of
  its arguments or a constant, with no arithmetic, so on finite floats it agrees with the
  same function on the reals.
\<close>

record balance_info =
  bi_balance :: "real option"

definition calculate_position_size :: "balance_info \<Rightarrow> real \<Rightarrow> real" where
  "calculate_position_size bi default_volume =
     (let balance = (case bi_balance bi of None \<Rightarrow> 0 | Some b \<Rightarrow> b)
      in if balance < 1000 then min default_volume 0.01
         else if balance < 5000 then min default_volume 0.05
         else default_volume)"

text \<open>The sizing rule in the words of the specification, for comparison.\<close>

definition PositionSizer_spec :: "real \<Rightarrow> real \<Rightarrow> real" where
  "PositionSizer_spec balance requested =
     (if balance < 1000 then min requested 0.01
      else if 1000 \<le> balance \<and> balance < 5000 then min requested 0.05
      else requested)"


section \<open>Credential vault: \<^verbatim>\<open>app/utils/encryption.py\<close>\<close>

text \<open>
  The Fernet cipher, base64 and UTF-8 decoding are library code: each is an oracle that
  returns \<open>None\<close> where the library raises. \<open>fernet_decrypt\<close> takes the key and the bytes
  (building the cipher from a malformed key raises as well). \<^verbatim>\<open>str.encode\<close> is the
  identity on the strings of the model.
\<close>

record crypto =
  ENCRYPTION_KEY :: "string option"
  fernet_decrypt :: "string \<Rightarrow> string \<Rightarrow> string option"
  b64decode :: "string \<Rightarrow> string option"
  utf8_decode :: "string \<Rightarrow> string option"

text \<open>\<^verbatim>\<open>base64.b64decode(encrypted_data.encode()).decode()\<close> inside its \<^verbatim>\<open>try\<close>, with the
  \<^verbatim>\<open>except\<close> that returns the input as it is.\<close>

definition base64_fallback :: "crypto \<Rightarrow> string \<Rightarrow> string" where
  "base64_fallback c encrypted_data =
     (case b64decode c encrypted_data of
        None \<Rightarrow> encrypted_data
      | Some bytes \<Rightarrow> (case utf8_decode c bytes of None \<Rightarrow> encrypted_data | Some s \<Rightarrow> s))"

text \<open>The \<^verbatim>\<open>try\<close> block that uses the cipher; \<open>None\<close> when any of its statements raises.\<close>

definition fernet_path :: "crypto \<Rightarrow> string \<Rightarrow> string \<Rightarrow> string option" where
  "fernet_path c key encrypted_data =
     (case b64decode c encrypted_data of
        None \<Rightarrow> None
      | Some encrypted_bytes \<Rightarrow>
          (case fernet_decrypt c key encrypted_bytes of
             None \<Rightarrow> None
           | Some decrypted \<Rightarrow> utf8_decode c decrypted))"

text \<open>
  \<^verbatim>\<open>decrypt_sensitive_data\<close>. The result type has room for an exception, so that what the
  function raises can be stated; no branch of the source raises.
\<close>

definition decrypt_sensitive_data :: "crypto \<Rightarrow> string \<Rightarrow> exn + string" where
  "decrypt_sensitive_data c encrypted_data =
     (if \<not> truthy (ENCRYPTION_KEY c) then Inr (base64_fallback c encrypted_data)
      else case fernet_path c (the (ENCRYPTION_KEY c)) encrypted_data of
             Some s \<Rightarrow> Inr s
           | None \<Rightarrow> Inr (base64_fallback c encrypted_data))"


section \<open>Rows, the database and the upstream\<close>

record user =
  u_id :: nat
  u_email :: string
  u_encrypted_password :: string
  u_broker_id :: string
  u_is_active :: bool

record user_session =
  s_id :: nat
  s_user_id :: nat
  s_token :: string
  s_trading_api_token :: string
  s_trading_account_id :: "string option"
  s_login_at :: timestamp
  s_expires_at :: "timestamp option"
  s_is_active :: bool
  s_last_refresh_at :: "timestamp option"

text \<open>An order row; \<open>account_id\<close> and \<open>order_type\<close> are written once and never read.\<close>

record order =
  o_id :: nat
  o_user_id :: nat
  o_order_uuid :: "string option"
  o_symbol :: "string option"
  o_side :: string
  o_quantity :: real
  o_entry_price :: real
  o_stop_loss :: "real option"
  o_take_profit :: "real option"
  o_status :: string
  o_created_at :: timestamp
  o_executed_at :: "timestamp option"
  o_closed_at :: "timestamp option"

record trade =
  t_order_id :: nat
  t_user_id :: nat
  t_symbol :: "string option"
  t_side :: string
  t_entry_price :: real
  t_exit_price :: real
  t_quantity :: real
  t_profit_loss :: real
  t_profit_loss_percent :: "real option"
  t_commission :: real
  t_duration_seconds :: "int option"
  t_executed_at :: "timestamp option"
  t_closed_at :: timestamp

text \<open>A row of \<open>trading_signals\<close>: the symbol, the action it was derived from, the reason.\<close>

record signal_row =
  ts_symbol :: "string option"
  ts_action :: string
  ts_reason :: string

record db =
  users :: "user list"
  user_sessions :: "user_session list"
  orders :: "order list"
  trades :: "trade list"
  trading_signals :: "signal_row list"

text \<open>The dicts of the upstream: a field is \<open>None\<close> when the key is missing.\<close>

record login_response =
  lr_token :: "string option"
  lr_trading_api_token :: "string option"
  lr_tradingApiToken :: "string option"
  lr_trading_account_id :: "string option"
  lr_tradingAccountId :: "string option"

record position =
  p_id :: "string option"
  p_uuid :: "string option"
  p_positionId :: "string option"
  p_symbol :: "string option"
  p_profit :: "real option"
  p_profitLoss :: "real option"
  p_entry_price :: "real option"
  p_openPrice :: "real option"
  p_close_price :: "real option"
  p_volume :: "real option"

record close_result =
  cl_closePrice :: "real option"
  cl_profit :: "real option"
  cl_profitLoss :: "real option"
  cl_commission :: "real option"

text \<open>
  The statements sent to the database. Any of them can raise: \<open>db_fault\<close> says which do.
  A commit that raises is followed by a rollback in the source, which leaves the rows as
  they were before the unit of work.
\<close>

datatype db_call =
    SelectUser nat
  | SelectActiveUsers
  | SelectActiveSession nat
  | SelectActiveSessions
  | SelectOrderByUuid "string option"
  | SelectUserOrderByUuid nat "string option"
  | SelectOpenOrders nat "string option"
  | UpdateSessionInactive nat
  | CommitSession nat
  | CommitOrder nat
  | CommitTrade nat
  | CommitExpired
  | CommitSignal

text \<open>
  Everything outside the repository that a call depends on: the clock (read once per
  call), the settings, the vault's libraries, the database's faults and the order in which
  it returns rows for \<^verbatim>\<open>ORDER BY created_at DESC\<close>, and the upstream's answers. The
  upstream's login is asked once per attempt, so its answer may depend on the attempt.
\<close>

record env =
  utcnow :: timestamp
  max_retry_attempts :: nat
  vault :: crypto
  db_fault :: "db_call \<Rightarrow> bool"
  order_by_created_at_desc :: "order list \<Rightarrow> order list"
  api_login :: "nat \<Rightarrow> string \<Rightarrow> string \<Rightarrow> string \<Rightarrow> exn + login_response"
  api_refresh_token :: "string \<Rightarrow> exn + login_response"
  api_get_balance :: "string \<Rightarrow> string \<Rightarrow> exn + balance_info"
  api_open_position :: "string \<Rightarrow> string \<Rightarrow> string option \<Rightarrow> string \<Rightarrow> real \<Rightarrow> exn + position"
  api_get_opened_positions :: "string \<Rightarrow> string \<Rightarrow> exn + position list"
  api_close_position :: "string \<Rightarrow> string \<Rightarrow> string option \<Rightarrow> exn + close_result"

text \<open>\<^verbatim>\<open>Result.scalar_one_or_none()\<close>.\<close>

fun scalar_one_or_none :: "'a list \<Rightarrow> exn + 'a option" where
  "scalar_one_or_none [] = Inr None"
| "scalar_one_or_none [r] = Inr (Some r)"
| "scalar_one_or_none (r # r' # rs) = Inl MultipleResultsFound"

text \<open>\<^verbatim>\<open>Result.first()\<close>.\<close>

fun first :: "'a list \<Rightarrow> 'a option" where
  "first [] = None"
| "first (r # rs) = Some r"

text \<open>The next value of an autoincrement key.\<close>

definition next_id :: "nat list \<Rightarrow> nat" where
  "next_id ids = Suc (fold max ids 0)"

text \<open>\<^verbatim>\<open>d.get(key, default)\<close> on an optional number, and \<^verbatim>\<open>int(x)\<close> of a number of seconds
  given in microseconds (truncation towards zero).\<close>

definition get_or :: "real option \<Rightarrow> real \<Rightarrow> real" where
  "get_or a dflt = (case a of None \<Rightarrow> dflt | Some x \<Rightarrow> x)"

definition whole_seconds :: "int \<Rightarrow> int" where
  "whole_seconds us = (if 0 \<le> us then us div 1000000 else - ((- us) div 1000000))"

text \<open>
  The dicts that the session manager and the orchestrator return. A field is \<open>None\<close> when
  the dict has no such key.
\<close>

record user_result =
  ur_success :: bool
  ur_user_id :: "nat option"
  ur_error :: "string option"
  ur_session_id :: "nat option"
  ur_retry_count :: "nat option"
  ur_closed_count :: "nat option"
  ur_order_id :: "nat option"
  ur_order_uuid :: "string option"
  ur_volume :: "real option"

definition failed :: "nat \<Rightarrow> string \<Rightarrow> user_result" where
  "failed user_id msg =
     \<lparr> ur_success = False, ur_user_id = Some user_id, ur_error = Some msg, ur_session_id = None,
       ur_retry_count = None, ur_closed_count = None, ur_order_id = None, ur_order_uuid = None,
       ur_volume = None \<rparr>"

definition succeeded :: "nat \<Rightarrow> user_result" where
  "succeeded user_id =
     \<lparr> ur_success = True, ur_user_id = Some user_id, ur_error = None, ur_session_id = None,
       ur_retry_count = None, ur_closed_count = None, ur_order_id = None, ur_order_uuid = None,
       ur_volume = None \<rparr>"

fun is_api_error :: "exn \<Rightarrow> bool" where
  "is_api_error (MatchTradeAPIError m) = True"
| "is_api_error _ = False"


section \<open>Session pool: \<^verbatim>\<open>app/services/session_manager.py\<close>\<close>

text \<open>
  The manager's dict \<open>active_sessions\<close> is written by login and refresh and read by none
  of the functions below; it is left out.

  The \<^verbatim>\<open>try\<close> block of \<^verbatim>\<open>login_user\<close>: \<open>Inl\<close> is the exception that reaches the handlers,
  \<open>Inr\<close> the dict returned and the database after it.
\<close>

definition login_attempt :: "env \<Rightarrow> db \<Rightarrow> nat \<Rightarrow> nat \<Rightarrow> exn + (user_result \<times> db)" where
  "login_attempt e d user_id retry_count =
     (if db_fault e (SelectUser user_id) then Inl (DBError ''select user'')
      else case find (\<lambda>u. u_id u = user_id) (users d) of
        None \<Rightarrow> Inr (failed user_id ''User not found'', d)
      | Some user \<Rightarrow>
          if \<not> u_is_active user then Inr (failed user_id ''User is not active'', d)
          else case decrypt_sensitive_data (vault e) (u_encrypted_password user) of
            Inl x \<Rightarrow> Inl x
          | Inr password \<Rightarrow>
             (case api_login e retry_count (u_email user) password (u_broker_id user) of
                Inl x \<Rightarrow> Inl x
              | Inr login_response \<Rightarrow>
                  let token = lr_token login_response;
                      trading_api_token = py_or (lr_trading_api_token login_response)
                                                (lr_tradingApiToken login_response);
                      trading_account_id = py_or (lr_trading_account_id login_response)
                                                 (lr_tradingAccountId login_response)
                  in if \<not> truthy token \<or> \<not> truthy trading_api_token
                     then Inl (MatchTradeAPIError ''Missing tokens in login response'')
                     else if db_fault e (SelectActiveSession user_id)
                     then Inl (DBError ''select session'')
                     else case scalar_one_or_none
                            (filter (\<lambda>s. s_user_id s = user_id \<and> s_is_active s) (user_sessions d)) of
                       Inl x \<Rightarrow> Inl x
                     | Inr existing_session \<Rightarrow>
                         let expires_at = utcnow e + seconds 900;
                             session_id = (case existing_session of
                                Some es \<Rightarrow> s_id es
                              | None \<Rightarrow> next_id (map s_id (user_sessions d)));
                             sessions' = (case existing_session of
                                Some es \<Rightarrow>
                                  map (\<lambda>s. if s_id s = s_id es
                                     then s\<lparr> s_token := the token,
                                             s_trading_api_token := the trading_api_token,
                                             s_trading_account_id := trading_account_id,
                                             s_login_at := utcnow e,
                                             s_expires_at := Some expires_at,
                                             s_is_active := True \<rparr>
                                     else s) (user_sessions d)
                              | None \<Rightarrow>
                                  user_sessions d @
                                  [\<lparr> s_id = session_id, s_user_id = user_id, s_token = the token,
                                     s_trading_api_token = the trading_api_token,
                                     s_trading_account_id = trading_account_id,
                                     s_login_at = utcnow e, s_expires_at = Some expires_at,
                                     s_is_active = True, s_last_refresh_at = None \<rparr>])
                         in if db_fault e (CommitSession user_id) then Inl (DBError ''commit'')
                            else Inr ((succeeded user_id)\<lparr>ur_session_id := Some session_id\<rparr>,
                                      d\<lparr>user_sessions := sessions'\<rparr>)))"

text \<open>
  \<^verbatim>\<open>login_user\<close> with its handlers: a \<open>MatchTradeAPIError\<close> is retried while
  \<open>retry_count < max_retry_attempts\<close>; any other exception gives a failure dict.
\<close>

function login_user :: "env \<Rightarrow> db \<Rightarrow> nat \<Rightarrow> nat \<Rightarrow> user_result \<times> db" where
  "login_user e d user_id retry_count =
     (case login_attempt e d user_id retry_count of
        Inr res \<Rightarrow> res
      | Inl x \<Rightarrow>
          if is_api_error x then
            (if retry_count < max_retry_attempts e
             then login_user e d user_id (retry_count + 1)
             else ((failed user_id (str_exn x))\<lparr>ur_retry_count := Some retry_count\<rparr>, d))
          else (failed user_id (str_exn x), d))"
  by pat_completeness auto
termination
  by (relation "measure (\<lambda>(e, d, user_id, retry_count). max_retry_attempts e - retry_count)") auto

declare login_user.simps [simp del]

text \<open>The \<^verbatim>\<open>try\<close> block of \<^verbatim>\<open>refresh_token\<close>, then the function with its handlers.\<close>

definition refresh_attempt :: "env \<Rightarrow> db \<Rightarrow> nat \<Rightarrow> exn + (user_result \<times> db)" where
  "refresh_attempt e d user_id =
     (if db_fault e (SelectActiveSession user_id) then Inl (DBError ''select session'')
      else case scalar_one_or_none
             (filter (\<lambda>s. s_user_id s = user_id \<and> s_is_active s) (user_sessions d)) of
        Inl x \<Rightarrow> Inl x
      | Inr None \<Rightarrow> Inr (login_user e d user_id 0)
      | Inr (Some session) \<Rightarrow>
         (case api_refresh_token e (s_token session) of
            Inl x \<Rightarrow> Inl x
          | Inr refresh_response \<Rightarrow>
              let new_token = lr_token refresh_response;
                  new_trading_token = py_or (lr_trading_api_token refresh_response)
                                            (lr_tradingApiToken refresh_response);
                  session' = session
                    \<lparr> s_token := (if truthy new_token then the new_token else s_token session),
                      s_trading_api_token := (if truthy new_trading_token then the new_trading_token
                                              else s_trading_api_token session),
                      s_last_refresh_at := Some (utcnow e),
                      s_expires_at := Some (utcnow e + seconds 900) \<rparr>
              in if db_fault e (CommitSession user_id) then Inl (DBError ''commit'')
                 else Inr (succeeded user_id,
                           d\<lparr>user_sessions :=
                               map (\<lambda>s. if s_id s = s_id session then session' else s)
                                   (user_sessions d)\<rparr>)))"

definition refresh_token :: "env \<Rightarrow> db \<Rightarrow> nat \<Rightarrow> user_result \<times> db" where
  "refresh_token e d user_id =
     (case refresh_attempt e d user_id of
        Inr res \<Rightarrow> res
      | Inl x \<Rightarrow> if is_api_error x then login_user e d user_id 0
                 else (failed user_id (str_exn x), d))"

text \<open>
  \<^verbatim>\<open>asyncio.gather\<close> over one task per user: the tasks share one database session, and are
  run here one after the other in the order of the list, each on the database the one
  before left. The results come in the order of the tasks.
\<close>

fun gather :: "(db \<Rightarrow> 'a \<Rightarrow> 'r \<times> db) \<Rightarrow> db \<Rightarrow> 'a list \<Rightarrow> 'r list \<times> db" where
  "gather task d [] = ([], d)"
| "gather task d (x # xs) =
     (case task d x of (r, d1) \<Rightarrow> (case gather task d1 xs of (rs, d2) \<Rightarrow> (r # rs, d2)))"

record all_result =
  ar_success :: bool
  ar_total :: nat
  ar_successful :: nat
  ar_failed :: nat
  ar_results :: "user_result list"

definition login_all_users :: "env \<Rightarrow> db \<Rightarrow> exn + (all_result \<times> db)" where
  "login_all_users e d =
     (if db_fault e SelectActiveUsers then Inl (DBError ''select users'')
      else
        let active_users = filter u_is_active (users d)
        in if active_users = []
           then Inr (\<lparr>ar_success = True, ar_total = 0, ar_successful = 0, ar_failed = 0,
                      ar_results = []\<rparr>, d)
           else case gather (\<lambda>d1 u. login_user e d1 (u_id u) 0) d active_users of
             (results, d') \<Rightarrow>
               let successful = length (filter ur_success results)
               in Inr (\<lparr>ar_success = True, ar_total = length active_users,
                        ar_successful = successful, ar_failed = length results - successful,
                        ar_results = results\<rparr>, d'))"

text \<open>\<^verbatim>\<open>refresh_all_tokens\<close>; its dict has no list of results.\<close>

definition refresh_all_tokens :: "env \<Rightarrow> db \<Rightarrow> exn + (all_result \<times> db)" where
  "refresh_all_tokens e d =
     (if db_fault e SelectActiveSessions then Inl (DBError ''select sessions'')
      else
        let sessions = filter s_is_active (user_sessions d)
        in if sessions = []
           then Inr (\<lparr>ar_success = True, ar_total = 0, ar_successful = 0, ar_failed = 0,
                      ar_results = []\<rparr>, d)
           else case gather (\<lambda>d1 s. refresh_token e d1 (s_user_id s)) d sessions of
             (results, d') \<Rightarrow>
               let successful = length (filter ur_success results)
               in Inr (\<lparr>ar_success = True, ar_total = length sessions,
                        ar_successful = successful, ar_failed = length results - successful,
                        ar_results = []\<rparr>, d'))"

text \<open>
  The classification loop of \<^verbatim>\<open>check_session_health\<close>: the three lists of user ids, each
  in the order of the sessions. A session without \<open>expires_at\<close> goes to none of them.
\<close>

fun classify_sessions :: "timestamp \<Rightarrow> user_session list \<Rightarrow> nat list \<times> nat list \<times> nat list" where
  "classify_sessions now [] = ([], [], [])"
| "classify_sessions now (session # rest) =
     (case classify_sessions now rest of (healthy_sessions, expiring_soon, expired_sessions) \<Rightarrow>
        (case s_expires_at session of
           None \<Rightarrow> (healthy_sessions, expiring_soon, expired_sessions)
         | Some expires_at \<Rightarrow>
             let time_until_expiry = expires_at - now
             in if time_until_expiry \<le> 0
                then (healthy_sessions, expiring_soon, s_user_id session # expired_sessions)
                else if time_until_expiry \<le> seconds 300
                then (healthy_sessions, s_user_id session # expiring_soon, expired_sessions)
                else (s_user_id session # healthy_sessions, expiring_soon, expired_sessions)))"

text \<open>
  The loop that deactivates the expired sessions: one \<^verbatim>\<open>UPDATE\<close> per user id, outside any
  \<^verbatim>\<open>try\<close>.
\<close>

fun deactivate_expired :: "env \<Rightarrow> user_session list \<Rightarrow> nat list \<Rightarrow> exn + user_session list" where
  "deactivate_expired e ss [] = Inr ss"
| "deactivate_expired e ss (user_id # rest) =
     (if db_fault e (UpdateSessionInactive user_id) then Inl (DBError ''update user_sessions'')
      else deactivate_expired e
             (map (\<lambda>s. if s_user_id s = user_id \<and> s_is_active s then s\<lparr>s_is_active := False\<rparr> else s) ss)
             rest)"

record health_report =
  hr_total_sessions :: nat
  hr_healthy :: nat
  hr_expiring_soon :: nat
  hr_expired :: nat
  hr_healthy_user_ids :: "nat list"
  hr_expiring_user_ids :: "nat list"
  hr_expired_user_ids :: "nat list"

definition check_session_health :: "env \<Rightarrow> db \<Rightarrow> exn + (health_report \<times> db)" where
  "check_session_health e d =
     (if db_fault e SelectActiveSessions then Inl (DBError ''select sessions'')
      else
        let sessions = filter s_is_active (user_sessions d)
        in case classify_sessions (utcnow e) sessions of
          (healthy_sessions, expiring_soon, expired_sessions) \<Rightarrow>
            let d1 = (if expiring_soon \<noteq> [] then snd (gather (refresh_token e) d expiring_soon) else d);
                report = \<lparr> hr_total_sessions = length sessions,
                           hr_healthy = length healthy_sessions,
                           hr_expiring_soon = length expiring_soon,
                           hr_expired = length expired_sessions,
                           hr_healthy_user_ids = healthy_sessions,
                           hr_expiring_user_ids = expiring_soon,
                           hr_expired_user_ids = expired_sessions \<rparr>
            in if expired_sessions = [] then Inr (report, d1)
               else case deactivate_expired e (user_sessions d1) expired_sessions of
                 Inl x \<Rightarrow> Inl x
               | Inr sessions' \<Rightarrow>
                   if db_fault e CommitExpired then Inr (report, d1)
                   else Inr (report, d1\<lparr>user_sessions := sessions'\<rparr>))"

text \<open>
  \<^verbatim>\<open>get_active_sessions\<close>: the dicts it builds have the keys \<open>session_id\<close>, \<open>user_id\<close>,
  \<open>trading_account_id\<close> and three dates, and no key \<open>token\<close> or \<open>trading_api_token\<close>.
  A session dict records the two token keys as optional for that reason.
\<close>

record session_dict =
  sd_session_id :: nat
  sd_user_id :: nat
  sd_trading_account_id :: "string option"
  sd_token :: "string option"
  sd_trading_api_token :: "string option"

definition get_active_sessions :: "env \<Rightarrow> db \<Rightarrow> exn + session_dict list" where
  "get_active_sessions e d =
     (if db_fault e SelectActiveSessions then Inl (DBError ''select sessions'')
      else Inr (map (\<lambda>s. \<lparr> sd_session_id = s_id s, sd_user_id = s_user_id s,
                            sd_trading_account_id = s_trading_account_id s,
                            sd_token = None, sd_trading_api_token = None \<rparr>)
                  (filter (\<lambda>s. s_is_active s \<and> s_user_id s \<in> set (map u_id (users d)))
                     (user_sessions d))))"

section \<open>Fan-out and supervision: \<^verbatim>\<open>app/services/order_orchestrator.py\<close>\<close>

text \<open>The signal dict: a field is \<open>None\<close> when the key is missing.\<close>

record signal =
  sg_action :: string
  sg_symbol :: "string option"
  sg_volume :: "real option"
  sg_stop_loss :: "real option"
  sg_take_profit :: "real option"
  sg_reason :: "string option"

text \<open>\<^verbatim>\<open>str.upper\<close> on ASCII letters.\<close>

definition upper_char :: "char \<Rightarrow> char" where
  "upper_char c = (let n = (of_char c :: nat) in if 97 \<le> n \<and> n \<le> 122 then char_of (n - 32) else c)"

definition upper :: "string \<Rightarrow> string" where
  "upper s = map upper_char s"

text \<open>
  \<^verbatim>\<open>_save_signal\<close>: the row is added and committed inside a \<^verbatim>\<open>try\<close> whose handler only
  logs. The column \<open>signal_type\<close> holds the action with \<^verbatim>\<open>OPEN_\<close> removed; the row of the
  model keeps the action.
\<close>

definition save_signal :: "env \<Rightarrow> db \<Rightarrow> signal \<Rightarrow> db" where
  "save_signal e d sg =
     (if db_fault e CommitSignal then d
      else d\<lparr>trading_signals := trading_signals d @
             [\<lparr>ts_symbol = sg_symbol sg, ts_action = sg_action sg,
               ts_reason = (case sg_reason sg of None \<Rightarrow> [] | Some r \<Rightarrow> r)\<rparr>]\<rparr>)"

text \<open>
  The two subscripts \<^verbatim>\<open>session["token"]\<close> and \<^verbatim>\<open>session["trading_api_token"]\<close> that each
  per-user function makes before its \<^verbatim>\<open>try\<close>: a missing key raises \<^verbatim>\<open>KeyError\<close>.
\<close>

definition session_tokens :: "session_dict \<Rightarrow> exn + (string \<times> string)" where
  "session_tokens session =
     (case sd_token session of
        None \<Rightarrow> Inl (KeyError ''token'')
      | Some token \<Rightarrow>
          (case sd_trading_api_token session of
             None \<Rightarrow> Inl (KeyError ''trading_api_token'')
           | Some trading_api_token \<Rightarrow> Inr (token, trading_api_token)))"

text \<open>
  \<^verbatim>\<open>_execute_order_for_user\<close>. \<open>Inl\<close> is an exception that leaves the function (only the
  \<^verbatim>\<open>KeyError\<close> above can); everything raised inside the \<^verbatim>\<open>try\<close> becomes a failure dict.
\<close>

definition execute_order_for_user ::
  "env \<Rightarrow> string option \<Rightarrow> string \<Rightarrow> real \<Rightarrow> real option \<Rightarrow> real option \<Rightarrow> db \<Rightarrow> session_dict
     \<Rightarrow> (exn + user_result) \<times> db" where
  "execute_order_for_user e symbol side volume stop_loss take_profit d session =
     (let user_id = sd_user_id session
      in case session_tokens session of
        Inl x \<Rightarrow> (Inl x, d)
      | Inr (token, trading_api_token) \<Rightarrow>
         (case api_get_balance e token trading_api_token of
            Inl x \<Rightarrow> (Inr (failed user_id (str_exn x)), d)
          | Inr balance_info \<Rightarrow>
              let adjusted_volume = calculate_position_size balance_info volume
              in case api_open_position e token trading_api_token symbol side adjusted_volume of
                Inl x \<Rightarrow> (Inr (failed user_id (str_exn x)), d)
              | Inr position \<Rightarrow>
                  let order_id = next_id (map o_id (orders d));
                      order = \<lparr> o_id = order_id, o_user_id = user_id,
                                o_order_uuid = py_or (py_or (p_id position) (p_uuid position))
                                                     (p_positionId position),
                                o_symbol = symbol,
                                o_side = (if side = ''BUY'' then ''LONG'' else ''SHORT''),
                                o_quantity = adjusted_volume,
                                o_entry_price = num_or (p_entry_price position)
                                                  (get_or (p_openPrice position) 0),
                                o_stop_loss = (if stop_loss = Some 0 then None else stop_loss),
                                o_take_profit = (if take_profit = Some 0 then None else take_profit),
                                o_status = ''OPEN'', o_created_at = utcnow e,
                                o_executed_at = Some (utcnow e), o_closed_at = None \<rparr>
                  in if db_fault e (CommitOrder user_id)
                     then (Inr (failed user_id ''commit''), d)
                     else (Inr ((succeeded user_id)
                                  \<lparr> ur_order_id := Some order_id,
                                    ur_order_uuid := o_order_uuid order,
                                    ur_volume := Some adjusted_volume \<rparr>),
                           d\<lparr>orders := orders d @ [order]\<rparr>)))"

text \<open>The dict that \<^verbatim>\<open>execute_signal_for_all\<close> returns; a field is \<open>None\<close> when the key is
  missing.\<close>

record exec_result =
  er_success :: bool
  er_error :: "string option"
  er_executed_count :: "nat option"
  er_failed_count :: "nat option"
  er_closed_count :: "nat option"
  er_total_volume :: "real option"
  er_successful_orders :: "user_result list"
  er_failed_orders :: "user_result list"
  er_results :: "user_result list"

definition rejected :: "string \<Rightarrow> exec_result" where
  "rejected msg =
     \<lparr> er_success = False, er_error = Some msg, er_executed_count = Some 0,
       er_failed_count = Some 0, er_closed_count = None, er_total_volume = None,
       er_successful_orders = [], er_failed_orders = [], er_results = [] \<rparr>"

text \<open>What \<^verbatim>\<open>gather(..., return_exceptions=True)\<close> makes of a task that raised.\<close>

definition as_dict :: "exn + user_result \<Rightarrow> user_result" where
  "as_dict r = (case r of
      Inr res \<Rightarrow> res
    | Inl x \<Rightarrow> \<lparr> ur_success = False, ur_user_id = None, ur_error = Some (str_exn x),
                 ur_session_id = None, ur_retry_count = None, ur_closed_count = None,
                 ur_order_id = None, ur_order_uuid = None, ur_volume = None \<rparr>)"

definition is_success :: "exn + user_result \<Rightarrow> bool" where
  "is_success r = (case r of Inr res \<Rightarrow> ur_success res | Inl x \<Rightarrow> False)"

definition execute_open_orders :: "env \<Rightarrow> db \<Rightarrow> signal \<Rightarrow> session_dict list \<Rightarrow> exec_result \<times> db" where
  "execute_open_orders e d sg sessions =
     (let symbol = sg_symbol sg;
          action = sg_action sg;
          side = (if action = ''OPEN_LONG'' then ''BUY'' else ''SELL'');
          volume = get_or (sg_volume sg) 0.1
      in case gather (execute_order_for_user e symbol side volume (sg_stop_loss sg) (sg_take_profit sg))
                d sessions of
        (results, d') \<Rightarrow>
          let successful_results = filter ur_success (map as_dict results);
              failed_results = filter (\<lambda>r. \<not> ur_success r) (map as_dict results);
              total_volume = sum_list (map (\<lambda>r. get_or (ur_volume r) 0) successful_results)
          in (\<lparr> er_success = True, er_error = None,
                er_executed_count = Some (length successful_results),
                er_failed_count = Some (length failed_results),
                er_closed_count = None, er_total_volume = Some total_volume,
                er_successful_orders = successful_results,
                er_failed_orders = failed_results, er_results = [] \<rparr>, d'))"

text \<open>The position id that \<^verbatim>\<open>_record_trade\<close> and \<^verbatim>\<open>_check_user_positions\<close> read.\<close>

definition position_id_of :: "position \<Rightarrow> string option" where
  "position_id_of position = py_or (py_or (p_id position) (p_uuid position)) (p_positionId position)"

text \<open>
  The fallback query of both functions: the \<^verbatim>\<open>OPEN\<close> orders of the user for the symbol,
  \<^verbatim>\<open>ORDER BY created_at DESC\<close>, and the \<^verbatim>\<open>first()\<close> of them. The statement names no second
  sort key: the order among rows of equal \<open>created_at\<close> is the database's.
\<close>

definition open_order_candidates :: "db \<Rightarrow> nat \<Rightarrow> string option \<Rightarrow> order list" where
  "open_order_candidates d user_id symbol =
     filter (\<lambda>ord. o_symbol ord = symbol \<and> o_user_id ord = user_id \<and> o_status ord = ''OPEN'') (orders d)"

definition select_open_order :: "env \<Rightarrow> db \<Rightarrow> nat \<Rightarrow> string option \<Rightarrow> exn + order option" where
  "select_open_order e d user_id symbol =
     (if db_fault e (SelectOpenOrders user_id symbol) then Inl (DBError ''select orders'')
      else Inr (first (order_by_created_at_desc e (open_order_candidates d user_id symbol))))"

text \<open>The trade row built from an order, a position and the result of the close.\<close>

definition make_trade :: "timestamp \<Rightarrow> nat \<Rightarrow> order \<Rightarrow> position \<Rightarrow> close_result \<Rightarrow> trade" where
  "make_trade now user_id ord position cr =
     (let entry_price = num_or (p_entry_price position) (get_or (p_openPrice position) 0);
          exit_price = num_or (p_close_price position) (get_or (cl_closePrice cr) 0);
          volume = get_or (p_volume position) 0;
          profit_loss = num_or (cl_profit cr) (get_or (cl_profitLoss cr) 0)
      in \<lparr> t_order_id = o_id ord, t_user_id = user_id, t_symbol = o_symbol ord,
           t_side = o_side ord, t_entry_price = entry_price, t_exit_price = exit_price,
           t_quantity = volume, t_profit_loss = profit_loss,
           t_profit_loss_percent =
             (if entry_price \<noteq> 0 \<and> volume \<noteq> 0
              then Some (profit_loss / (entry_price * volume) * 100) else None),
           t_commission = get_or (cl_commission cr) 0,
           t_duration_seconds =
             (case o_executed_at ord of None \<Rightarrow> None | Some t \<Rightarrow> Some (whole_seconds (now - t))),
           t_executed_at = o_executed_at ord, t_closed_at = now \<rparr>)"

text \<open>The order as \<^verbatim>\<open>_record_trade\<close> leaves it.\<close>

definition close_order :: "timestamp \<Rightarrow> string option \<Rightarrow> order \<Rightarrow> order" where
  "close_order now position_id ord =
     ord\<lparr> o_status := ''CLOSED'', o_closed_at := Some now,
          o_order_uuid := (if truthy position_id \<and> \<not> truthy (o_order_uuid ord)
                           then position_id else o_order_uuid ord) \<rparr>"

text \<open>
  The lookup of \<^verbatim>\<open>_record_trade\<close>: by position id and user first, then, when no row was
  found and the position has a symbol, the fallback query.
\<close>

definition find_order :: "env \<Rightarrow> db \<Rightarrow> nat \<Rightarrow> position \<Rightarrow> exn + order option" where
  "find_order e d user_id position =
     (let position_id = position_id_of position; symbol = p_symbol position
      in if db_fault e (SelectUserOrderByUuid user_id position_id) then Inl (DBError ''select order'')
         else case scalar_one_or_none
                (filter (\<lambda>ord. o_order_uuid ord = position_id \<and> o_user_id ord = user_id) (orders d)) of
           Inl x \<Rightarrow> Inl x
         | Inr (Some ord) \<Rightarrow> Inr (Some ord)
         | Inr None \<Rightarrow> if truthy symbol then select_open_order e d user_id symbol else Inr None)"

text \<open>
  The \<^verbatim>\<open>try\<close> block of \<^verbatim>\<open>_record_trade\<close>, then the function: its handler logs whatever
  was raised and the function returns. \<^verbatim>\<open>result.first()\<close> is read as the first order of
  the result.
\<close>

definition record_trade_body :: "env \<Rightarrow> db \<Rightarrow> nat \<Rightarrow> position \<Rightarrow> close_result \<Rightarrow> exn + db" where
  "record_trade_body e d user_id position cr =
     (case find_order e d user_id position of
        Inl x \<Rightarrow> Inl x
      | Inr None \<Rightarrow> Inr d
      | Inr (Some ord) \<Rightarrow>
          if db_fault e (CommitTrade user_id) then Inl (DBError ''commit'')
          else Inr (d\<lparr> orders := map (\<lambda>o'. if o_id o' = o_id ord
                                            then close_order (utcnow e) (position_id_of position) ord
                                            else o') (orders d),
                       trades := trades d @ [make_trade (utcnow e) user_id ord position cr] \<rparr>))"

definition record_trade :: "env \<Rightarrow> db \<Rightarrow> nat \<Rightarrow> position \<Rightarrow> close_result \<Rightarrow> db" where
  "record_trade e d user_id position cr =
     (case record_trade_body e d user_id position cr of Inl x \<Rightarrow> d | Inr d' \<Rightarrow> d')"

text \<open>
  \<^verbatim>\<open>_close_positions_for_user\<close>: the closes are gathered first, then a trade is recorded
  for each close that returned a dict, and the count is the number of such closes.
\<close>

definition record_closed :: "env \<Rightarrow> nat \<Rightarrow> position \<times> (exn + close_result) \<Rightarrow> db \<Rightarrow> db" where
  "record_closed e user_id pr d =
     (case snd pr of Inr cr \<Rightarrow> record_trade e d user_id (fst pr) cr | Inl x \<Rightarrow> d)"

definition close_positions_for_user ::
  "env \<Rightarrow> string option \<Rightarrow> db \<Rightarrow> session_dict \<Rightarrow> (exn + user_result) \<times> db" where
  "close_positions_for_user e symbol d session =
     (let user_id = sd_user_id session
      in case session_tokens session of
        Inl x \<Rightarrow> (Inl x, d)
      | Inr (token, trading_api_token) \<Rightarrow>
         (case api_get_opened_positions e token trading_api_token of
            Inl x \<Rightarrow> (Inr (failed user_id (str_exn x)), d)
          | Inr all_positions \<Rightarrow>
              let positions = (if truthy symbol then filter (\<lambda>p. p_symbol p = symbol) all_positions
                               else all_positions)
              in if positions = []
                 then (Inr ((succeeded user_id)\<lparr>ur_closed_count := Some 0\<rparr>), d)
                 else
                   let close_results = map (\<lambda>p. api_close_position e token trading_api_token
                                                   (py_or (p_id p) (p_uuid p))) positions;
                       d' = fold (record_closed e user_id) (zip positions close_results) d;
                       successful_closes = length (filter (\<lambda>r. \<not> isl r) close_results)
                   in (Inr ((succeeded user_id)\<lparr>ur_closed_count := Some successful_closes\<rparr>), d')))"

definition execute_close_orders :: "env \<Rightarrow> db \<Rightarrow> signal \<Rightarrow> session_dict list \<Rightarrow> exec_result \<times> db" where
  "execute_close_orders e d sg sessions =
     (case gather (close_positions_for_user e (sg_symbol sg)) d sessions of
        (results, d') \<Rightarrow>
          let successful_closes = length (filter is_success results)
          in (\<lparr> er_success = True, er_error = None, er_executed_count = None,
                er_failed_count = Some (length results - successful_closes),
                er_closed_count = Some successful_closes, er_total_volume = None,
                er_successful_orders = [], er_failed_orders = [],
                er_results = map as_dict results \<rparr>, d'))"

text \<open>
  \<^verbatim>\<open>execute_signal_for_all\<close>. The query for the active sessions is outside any \<^verbatim>\<open>try\<close>:
  \<open>Inl\<close> is what it raises.
\<close>

definition execute_signal_for_all :: "env \<Rightarrow> db \<Rightarrow> signal \<Rightarrow> exn + (exec_result \<times> db)" where
  "execute_signal_for_all e d sg =
     (let d1 = save_signal e d sg
      in case get_active_sessions e d1 of
        Inl x \<Rightarrow> Inl x
      | Inr active_sessions \<Rightarrow>
          if active_sessions = [] then Inr (rejected ''No active sessions'', d1)
          else
            let action = upper (sg_action sg)
            in if action = ''OPEN_LONG'' \<or> action = ''OPEN_SHORT''
               then Inr (execute_open_orders e d1 sg active_sessions)
               else if action = ''CLOSE'' \<or> action = ''CLOSE_ALL''
               then Inr (execute_close_orders e d1 sg active_sessions)
               else Inr (rejected (''Unknown action: '' @ action), d1))"

text \<open>
  The auto-close decision of \<^verbatim>\<open>_check_user_positions\<close> for one position and its order:
  \<open>should_close\<close> and \<open>close_reason\<close> after the holding-time test and the profit and loss
  test, in the order of the source. The second test assigns after the first.
\<close>

definition current_pl :: "position \<Rightarrow> real" where
  "current_pl position = num_or (p_profit position) (get_or (p_profitLoss position) 0)"

definition auto_close_policy :: "timestamp \<Rightarrow> order \<Rightarrow> position \<Rightarrow> bool \<times> string" where
  "auto_close_policy now ord position =
     (let held = (case o_executed_at ord of
                    None \<Rightarrow> (False, [])
                  | Some executed_at \<Rightarrow>
                      if now - executed_at > seconds 300 then (True, ''Max holding time exceeded'')
                      else (False, []))
      in if current_pl position \<ge> 100 then (True, ''Target profit reached'')
         else if current_pl position \<le> - 50 then (True, ''Stop loss triggered'')
         else held)"

text \<open>
  The state of the loop over the positions of one user: the database, \<open>closed_count\<close>, and
  the lines \<^verbatim>\<open>Auto-closing position ... for user ...: reason\<close> written to the log.
\<close>

record walk =
  w_db :: db
  w_closed_count :: nat
  w_log :: "(string option \<times> nat \<times> string) list"

text \<open>
  The body of the loop: the lookup of the order (by position id, over all users, then the
  fallback query), and the rest. \<open>Inl\<close> is an exception raised by a query, which ends
  the loop in the outer handler; a close that raises is caught inside the loop and only
  logged.
\<close>

definition reconcile :: "env \<Rightarrow> db \<Rightarrow> nat \<Rightarrow> position \<Rightarrow> exn + order option" where
  "reconcile e d user_id position =
     (let position_id = position_id_of position; symbol = p_symbol position
      in if db_fault e (SelectOrderByUuid position_id) then Inl (DBError ''select order'')
         else case scalar_one_or_none (filter (\<lambda>ord. o_order_uuid ord = position_id) (orders d)) of
           Inl x \<Rightarrow> Inl x
         | Inr (Some ord) \<Rightarrow> Inr (Some ord)
         | Inr None \<Rightarrow> if truthy symbol then select_open_order e d user_id symbol else Inr None)"

definition check_position :: "env \<Rightarrow> nat \<Rightarrow> string \<Rightarrow> string \<Rightarrow> position \<Rightarrow> walk \<Rightarrow> exn + walk" where
  "check_position e user_id token trading_api_token position w =
     (case reconcile e (w_db w) user_id position of
        Inl x \<Rightarrow> Inl x
      | Inr None \<Rightarrow> Inr w
      | Inr (Some ord) \<Rightarrow>
          (case auto_close_policy (utcnow e) ord position of
             (should_close, close_reason) \<Rightarrow>
               if should_close then
                 (let w1 = w\<lparr>w_log := w_log w @ [(position_id_of position, user_id, close_reason)]\<rparr>
                  in case api_close_position e token trading_api_token (position_id_of position) of
                       Inl x \<Rightarrow> Inr w1
                     | Inr cr \<Rightarrow>
                         Inr (w1\<lparr> w_db := record_trade e (w_db w) user_id position cr,
                                  w_closed_count := w_closed_count w + 1 \<rparr>))
               else Inr w))"

fun check_positions :: "env \<Rightarrow> nat \<Rightarrow> string \<Rightarrow> string \<Rightarrow> position list \<Rightarrow> walk \<Rightarrow> exn option \<times> walk" where
  "check_positions e user_id token trading_api_token [] w = (None, w)"
| "check_positions e user_id token trading_api_token (position # rest) w =
     (case check_position e user_id token trading_api_token position w of
        Inl x \<Rightarrow> (Some x, w)
      | Inr w' \<Rightarrow> check_positions e user_id token trading_api_token rest w')"

record check_result =
  ck_closed :: nat
  ck_positions :: nat
  ck_error :: "string option"

definition check_user_positions :: "env \<Rightarrow> walk \<Rightarrow> session_dict \<Rightarrow> exn + (check_result \<times> walk)" where
  "check_user_positions e w session =
     (case session_tokens session of
        Inl x \<Rightarrow> Inl x
      | Inr (token, trading_api_token) \<Rightarrow>
         (case api_get_opened_positions e token trading_api_token of
            Inl x \<Rightarrow> Inr (\<lparr>ck_closed = 0, ck_positions = 0, ck_error = Some (str_exn x)\<rparr>, w)
          | Inr positions \<Rightarrow>
              if positions = [] then Inr (\<lparr>ck_closed = 0, ck_positions = 0, ck_error = None\<rparr>, w)
              else case check_positions e (sd_user_id session) token trading_api_token positions
                          (w\<lparr>w_closed_count := 0\<rparr>) of
                (None, w') \<Rightarrow>
                  Inr (\<lparr>ck_closed = w_closed_count w', ck_positions = length positions,
                        ck_error = None\<rparr>, w')
              | (Some x, w') \<Rightarrow>
                  Inr (\<lparr>ck_closed = w_closed_count w', ck_positions = 0,
                        ck_error = Some (str_exn x)\<rparr>, w')))"

text \<open>
  \<^verbatim>\<open>monitor_positions_once\<close>: the whole body is inside a \<^verbatim>\<open>try\<close>, and each session is
  checked inside its own.
\<close>

record monitor_result =
  mr_checked :: nat
  mr_closed :: nat
  mr_errors :: nat

definition monitor_session :: "env \<Rightarrow> session_dict \<Rightarrow> (nat \<times> nat) \<times> walk \<Rightarrow> (nat \<times> nat) \<times> walk" where
  "monitor_session e session st =
     (case st of ((closed_count, error_count), w) \<Rightarrow>
        (case check_user_positions e w session of
           Inl x \<Rightarrow> ((closed_count, error_count + 1), w)
         | Inr (result, w') \<Rightarrow>
             ((if ck_closed result > 0 then closed_count + ck_closed result else closed_count,
               error_count), w')))"

definition monitor_positions_once :: "env \<Rightarrow> walk \<Rightarrow> monitor_result \<times> walk" where
  "monitor_positions_once e w =
     (case get_active_sessions e (w_db w) of
        Inl x \<Rightarrow> (\<lparr>mr_checked = 0, mr_closed = 0, mr_errors = 1\<rparr>, w)
      | Inr active_sessions \<Rightarrow>
          if active_sessions = [] then (\<lparr>mr_checked = 0, mr_closed = 0, mr_errors = 0\<rparr>, w)
          else case fold (monitor_session e) active_sessions ((0, 0), w) of
            ((closed_count, error_count), w') \<Rightarrow>
              (\<lparr>mr_checked = length active_sessions, mr_closed = closed_count,
                mr_errors = error_count\<rparr>, w'))"

section \<open>Concrete inputs for the examples\<close>

text \<open>
  A vault whose key does not open what is stored: the cipher rejects every token. The
  only base64 text it is asked about is \<^verbatim>\<open>cGFzcw==\<close>, the encoding of \<^verbatim>\<open>pass\<close>;
  \<^verbatim>\<open>secret\<close> is not valid base64 (its length is not a multiple of four).
\<close>

definition legacy_vault :: crypto where
  "legacy_vault = \<lparr> ENCRYPTION_KEY = Some ''k'',
     fernet_decrypt = (\<lambda>key bytes. None),
     b64decode = (\<lambda>s. if s = ''cGFzcw=='' then Some ''pass'' else None),
     utf8_decode = (\<lambda>bytes. Some bytes) \<rparr>"

text \<open>
  An environment with no database fault, a database that sorts stably, and an upstream
  that rejects every call and lists no position.
\<close>

definition quiet_env :: env where
  "quiet_env = \<lparr> utcnow = 1000000000, max_retry_attempts = 3, vault = legacy_vault,
     db_fault = (\<lambda>c. False),
     order_by_created_at_desc = sort_key (\<lambda>ord. - o_created_at ord),
     api_login = (\<lambda>k email password broker. Inl (MatchTradeAPIError ''Unauthorized'')),
     api_refresh_token = (\<lambda>token. Inl (MatchTradeAPIError ''Unauthorized'')),
     api_get_balance = (\<lambda>token tat. Inl (MatchTradeAPIError ''Unauthorized'')),
     api_open_position = (\<lambda>token tat symbol side volume. Inl (MatchTradeAPIError ''Unauthorized'')),
     api_get_opened_positions = (\<lambda>token tat. Inr []),
     api_close_position = (\<lambda>token tat pid. Inl (MatchTradeAPIError ''Bad request'')) \<rparr>"

definition empty_db :: db where
  "empty_db = \<lparr> users = [], user_sessions = [], orders = [], trades = [], trading_signals = [] \<rparr>"



text \<open>A user whose stored password is the base64 text, and an upstream that accepts the
  password \<^verbatim>\<open>pass\<close>.\<close>

definition legacy_user :: user where
  "legacy_user = \<lparr> u_id = 7, u_email = ''a@b.c'', u_encrypted_password = ''cGFzcw=='',
     u_broker_id = ''0'', u_is_active = True \<rparr>"

definition legacy_db :: db where
  "legacy_db = empty_db\<lparr>users := [legacy_user]\<rparr>"

definition legacy_env :: env where
  "legacy_env = quiet_env\<lparr> api_login := (\<lambda>k email password broker.
     if password = ''pass''
     then Inr \<lparr> lr_token = Some ''T'', lr_trading_api_token = Some ''A'', lr_tradingApiToken = None,
                lr_trading_account_id = Some ''acc'', lr_tradingAccountId = None \<rparr>
     else Inl (MatchTradeAPIError ''Unauthorized'')) \<rparr>"

text \<open>Three active sessions at time \<open>utcnow quiet_env\<close>: one that expires in ten minutes,
  one in 120 s, one that expired a second ago.\<close>

definition session_of :: "nat \<Rightarrow> timestamp \<Rightarrow> user_session" where
  "session_of uid expires =
     \<lparr> s_id = uid, s_user_id = uid, s_token = ''T'', s_trading_api_token = ''A'',
       s_trading_account_id = None, s_login_at = 0, s_expires_at = Some expires,
       s_is_active = True, s_last_refresh_at = None \<rparr>"

definition sweep_db :: db where
  "sweep_db = empty_db\<lparr>user_sessions :=
     [session_of 21 (1000000000 + seconds 600), session_of 22 (1000000000 + seconds 120),
      session_of 23 (1000000000 - seconds 1)]\<rparr>"

text \<open>The same database with a driver that fails on the \<^verbatim>\<open>UPDATE\<close> for user 23.\<close>

definition update_fault_env :: env where
  "update_fault_env = quiet_env\<lparr>db_fault := (\<lambda>c. c = UpdateSessionInactive 23)\<rparr>"

text \<open>The classes of the sweep in the words of the specification.\<close>

definition healthy_spec :: "timestamp \<Rightarrow> user_session \<Rightarrow> bool" where
  "healthy_spec now s = (case s_expires_at s of None \<Rightarrow> False | Some t \<Rightarrow> t - now > seconds 300)"

definition expiring_soon_spec :: "timestamp \<Rightarrow> user_session \<Rightarrow> bool" where
  "expiring_soon_spec now s =
     (case s_expires_at s of None \<Rightarrow> False | Some t \<Rightarrow> 0 < t - now \<and> t - now \<le> seconds 300)"

definition expired_spec :: "timestamp \<Rightarrow> user_session \<Rightarrow> bool" where
  "expired_spec now s = (case s_expires_at s of None \<Rightarrow> False | Some t \<Rightarrow> t \<le> now)"

text \<open>The report expected for \<open>sweep_db\<close>.\<close>

definition sweep_report :: health_report where
  "sweep_report = \<lparr> hr_total_sessions = 3, hr_healthy = 1, hr_expiring_soon = 1, hr_expired = 1,
     hr_healthy_user_ids = [21], hr_expiring_user_ids = [22], hr_expired_user_ids = [23] \<rparr>"


text \<open>
  Open orders of user 7 for \<^verbatim>\<open>BTCUSD\<close> with no position id yet, a position of the
  upstream whose id no order carries, and the result of closing it.
\<close>

definition order_of :: "nat \<Rightarrow> timestamp \<Rightarrow> order" where
  "order_of oid created =
     \<lparr> o_id = oid, o_user_id = 7, o_order_uuid = None, o_symbol = Some ''BTCUSD'',
       o_side = ''LONG'', o_quantity = 1 / 100, o_entry_price = 50000, o_stop_loss = None,
       o_take_profit = None, o_status = ''OPEN'', o_created_at = created,
       o_executed_at = Some created, o_closed_at = None \<rparr>"

definition tie_db :: db where
  "tie_db = empty_db\<lparr>orders := [order_of 11 500, order_of 12 500]\<rparr>"

definition newer_db :: db where
  "newer_db = empty_db\<lparr>orders := [order_of 11 500, order_of 12 900]\<rparr>"

definition position_X :: position where
  "position_X = \<lparr> p_id = Some ''X'', p_uuid = None, p_positionId = None,
     p_symbol = Some ''BTCUSD'', p_profit = Some 150, p_profitLoss = None,
     p_entry_price = Some 50000, p_openPrice = None, p_close_price = None,
     p_volume = Some (1 / 100) \<rparr>"

definition close_X :: close_result where
  "close_X = \<lparr> cl_closePrice = Some 50100, cl_profit = Some 150, cl_profitLoss = None,
     cl_commission = None \<rparr>"

text \<open>A session dict that carries its tokens, an upstream that lists \<open>position_X\<close> and
  closes it, and the same with a database that fails to commit the trade.\<close>

definition session_7 :: session_dict where
  "session_7 = \<lparr> sd_session_id = 1, sd_user_id = 7, sd_trading_account_id = None,
     sd_token = Some ''T'', sd_trading_api_token = Some ''A'' \<rparr>"

definition closing_env :: env where
  "closing_env = quiet_env\<lparr> api_get_opened_positions := (\<lambda>token tat. Inr [position_X]),
     api_close_position := (\<lambda>token tat pid. Inr close_X) \<rparr>"

definition commit_fault_env :: env where
  "commit_fault_env = closing_env\<lparr>db_fault := (\<lambda>c. c = CommitTrade 7)\<rparr>"






section \<open>Theorems\<close>

subsection \<open>Position sizing\<close>

text \<open>
  Claim C6. For every requested volume \<open>v \<ge> 0\<close> and balances \<open>b1 < b2\<close>, the size computed
  for \<open>b1\<close> is at most the size computed for \<open>b2\<close>, which is at most \<open>v\<close>; and the function
  of the source is the rule of the specification (\<open>min v 0.01\<close> below 1000, \<open>min v 0.05\<close>
  from 1000 to below 5000, \<open>v\<close> otherwise).
\<close>

theorem C6_sizing_monotone:
  assumes "0 \<le> v" and "b1 < b2"
  shows "calculate_position_size \<lparr>bi_balance = Some b1\<rparr> v
           \<le> calculate_position_size \<lparr>bi_balance = Some b2\<rparr> v
       \<and> calculate_position_size \<lparr>bi_balance = Some b2\<rparr> v \<le> v
       \<and> calculate_position_size \<lparr>bi_balance = Some b1\<rparr> v = PositionSizer_spec b1 v
       \<and> calculate_position_size \<lparr>bi_balance = Some b2\<rparr> v = PositionSizer_spec b2 v"
  using assms by (auto simp: calculate_position_size_def PositionSizer_spec_def min_def)

theorem C6_sizing_monotone_witness:
  "(0::real) \<le> 0.1 \<and> (500::real) < 8000
   \<and> calculate_position_size \<lparr>bi_balance = Some 500\<rparr> 0.1 = 0.01
   \<and> calculate_position_size \<lparr>bi_balance = Some 8000\<rparr> 0.1 = 0.1
   \<and> calculate_position_size \<lparr>bi_balance = Some 500\<rparr> 0.1
       \<le> calculate_position_size \<lparr>bi_balance = Some 8000\<rparr> 0.1
   \<and> calculate_position_size \<lparr>bi_balance = Some 8000\<rparr> 0.1 \<le> 0.1"
  using C6_sizing_monotone [of "0.1" 500 8000]
  by (simp add: calculate_position_size_def)

subsection \<open>Event bus\<close>

lemma map_of_map_channels:
  "map_of (map_channels g chs) k = map_option (g k) (map_of chs k)"
  by (induction chs) (auto simp: map_channels_def)

lemma set_map_channels:
  "set (map_channels g chs) = (\<lambda>(k, S). (k, g k S)) ` set chs"
  by (simp add: map_channels_def)

lemma map_channels_comp:
  "map_channels f (map_channels g chs) = map_channels (\<lambda>k S. f k (g k S)) chs"
  by (simp add: map_channels_def comp_def case_prod_unfold)

lemma members_map_channels:
  "members (s\<lparr>channels := map_channels g (channels s)\<rparr>) k =
     (case map_of (channels s) k of None \<Rightarrow> [] | Some S \<Rightarrow> g k S)"
  by (simp add: members_def map_of_map_channels split: option.splits)

lemma E2_iff:
  "E2 s \<longleftrightarrow> (\<forall>(k, S) \<in> set (channels s). set S \<subseteq> set (members s ''all''))"
  by (auto simp: E2_def list_all_iff)

lemma in_some_channel_iff:
  "in_some_channel s w \<longleftrightarrow> (\<exists>(k, S) \<in> set (channels s). w \<in> set S)"
  by (auto simp: in_some_channel_def list_ex_iff)

lemma channels_bump_sent [simp]: "channels (bump_sent w s) = channels s"
  by (simp add: bump_sent_def split: option.splits)

lemma metadata_bump_sent_other:
  "c \<noteq> w \<Longrightarrow> connection_metadata (bump_sent w s) c = connection_metadata s c"
  by (simp add: bump_sent_def split: option.splits)

lemma channels_disconnect:
  "channels (disconnect w s) = map_channels (\<lambda>k S. removeAll w S) (channels s)"
  by (simp add: disconnect_def)

lemma channels_fold_disconnect:
  "channels (fold disconnect D s) = map_channels (\<lambda>k S. filter (\<lambda>w. w \<notin> set D) S) (channels s)"
proof (induction D arbitrary: s)
  case Nil
  show ?case by (simp add: map_channels_def)
next
  case (Cons d D)
  have "filter (\<lambda>w. w \<notin> set D) (removeAll d S) = filter (\<lambda>w. w \<noteq> d \<and> w \<notin> set D) S" for S :: "ws list"
    by (induction S) auto
  with Cons show ?case
    by (simp add: channels_disconnect map_channels_def comp_def case_prod_unfold)
qed

lemma metadata_fold_disconnect:
  "connection_metadata (fold disconnect D s) c =
     (if c \<in> set D then None else connection_metadata s c)"
  by (induction D arbitrary: s) (auto simp: disconnect_def)

lemma E2_map_channels:
  assumes "E2 s" and "has_all s"
    and mono: "\<And>k S. (k, S) \<in> set (channels s) \<Longrightarrow> set S \<subseteq> set (members s ''all'')
                 \<Longrightarrow> set (g k S) \<subseteq> set (g ''all'' (members s ''all''))"
  shows "E2 (s\<lparr>channels := map_channels g (channels s)\<rparr>)
       \<and> has_all (s\<lparr>channels := map_channels g (channels s)\<rparr>)"
proof -
  from \<open>has_all s\<close> obtain A where A: "map_of (channels s) ''all'' = Some A"
    by (auto simp: has_all_def)
  then have mem: "members s ''all'' = A" by (simp add: members_def)
  have mem': "members (s\<lparr>channels := map_channels g (channels s)\<rparr>) ''all'' = g ''all'' A"
    by (simp add: members_map_channels A)
  have "set (g k S) \<subseteq> set (g ''all'' A)" if "(k, S) \<in> set (channels s)" for k S
  proof -
    from that \<open>E2 s\<close> have "set S \<subseteq> set (members s ''all'')"
      by (auto simp: E2_iff)
    from mono [OF that this] show ?thesis by (simp add: mem)
  qed
  then have "E2 (s\<lparr>channels := map_channels g (channels s)\<rparr>)"
    unfolding E2_iff mem' by (auto simp: set_map_channels)
  moreover have "has_all (s\<lparr>channels := map_channels g (channels s)\<rparr>)"
    by (simp add: has_all_def map_of_map_channels A)
  ultimately show ?thesis by simp
qed

lemma E2_cong_channels: "channels s' = channels s \<Longrightarrow> E2 s' = E2 s"
  by (simp add: E2_iff members_def)

lemma has_all_cong_channels: "channels s' = channels s \<Longrightarrow> has_all s' = has_all s"
  by (simp add: has_all_def)

lemma inv_cong_channels:
  assumes "channels s' = channels s" and "E2 s" and "has_all s"
  shows "E2 s' \<and> has_all s'"
  using assms E2_cong_channels [OF assms(1)] has_all_cong_channels [OF assms(1)] by blast

lemma inv_disconnect:
  assumes "E2 s" and "has_all s"
  shows "E2 (disconnect w s) \<and> has_all (disconnect w s)"
proof -
  let ?t = "s\<lparr>channels := map_channels (\<lambda>k S. removeAll w S) (channels s)\<rparr>"
  have t: "E2 ?t \<and> has_all ?t"
    by (rule E2_map_channels [OF assms]) auto
  have c: "channels (disconnect w s) = channels ?t"
    by (simp add: disconnect_def)
  show ?thesis
    by (rule inv_cong_channels [OF c]) (simp_all add: t)
qed

lemma inv_fold_disconnect:
  "E2 s \<Longrightarrow> has_all s \<Longrightarrow> E2 (fold disconnect D s) \<and> has_all (fold disconnect D s)"
  by (induction D arbitrary: s) (auto dest: inv_disconnect)

lemma inv_bump_sent:
  assumes "E2 s" and "has_all s"
  shows "E2 (bump_sent w s) \<and> has_all (bump_sent w s)"
  by (rule inv_cong_channels [OF _ assms]) simp

lemma inv_send_personal_message:
  assumes "E2 s" and "has_all s"
  shows "E2 (send_personal_message tr m w s) \<and> has_all (send_personal_message tr m w s)"
  using inv_disconnect [OF assms, of w] inv_bump_sent [OF assms, of w]
  by (cases "send_json tr w m") (simp_all add: send_personal_message_def)

lemma channels_count_sent [simp]: "channels (count_sent cr st) = channels st"
  by (simp add: count_sent_def split: sum.splits bool.splits)

lemma channels_fold_count_sent: "channels (fold count_sent zs s) = channels s"
  by (induction zs arbitrary: s) simp_all

lemma broadcast_no_channel: "map_of (channels s) ch = None \<Longrightarrow> broadcast tr m ch s = s"
  by (simp add: broadcast_def)

lemma broadcast_empty: "map_of (channels s) ch = Some [] \<Longrightarrow> broadcast tr m ch s = s"
  by (simp add: broadcast_def)

lemma broadcast_unfold:
  assumes "map_of (channels s) ch = Some conns" and "conns \<noteq> []"
  shows "broadcast tr m ch s =
     fold disconnect (broadcast_disconnected tr (stamp tr m) conns)
       (fold count_sent (broadcast_results tr (stamp tr m) conns) s)"
  unfolding broadcast_def by (simp only: assms option.case if_False)

lemma inv_broadcast:
  assumes "E2 s" and "has_all s"
  shows "E2 (broadcast tr m ch s) \<and> has_all (broadcast tr m ch s)"
proof (cases "map_of (channels s) ch")
  case None
  then show ?thesis using assms by (simp only: broadcast_no_channel simp_thms)
next
  case (Some conns)
  show ?thesis
  proof (cases "conns = []")
    case True
    with Some have "map_of (channels s) ch = Some []" by simp
    then show ?thesis using assms by (simp only: broadcast_empty simp_thms)
  next
    case False
    have "E2 (fold count_sent (broadcast_results tr (stamp tr m) conns) s)
        \<and> has_all (fold count_sent (broadcast_results tr (stamp tr m) conns) s)"
      by (rule inv_cong_channels [OF channels_fold_count_sent assms])
    then have a: "E2 (fold count_sent (broadcast_results tr (stamp tr m) conns) s)"
      and b: "has_all (fold count_sent (broadcast_results tr (stamp tr m) conns) s)"
      by simp_all
    show ?thesis
      unfolding broadcast_unfold [OF Some False] by (rule inv_fold_disconnect [OF a b])
  qed
qed

lemma map_of_snoc_all:
  "map_of chs ''all'' \<noteq> None \<Longrightarrow> map_of (chs @ [(ch, [])]) ''all'' = map_of chs ''all''"
  by (induction chs) auto

lemma inv_add_key:
  assumes "E2 s" and "has_all s"
  shows "E2 (s\<lparr>channels := channels s @ [(ch, [])]\<rparr>) \<and> has_all (s\<lparr>channels := channels s @ [(ch, [])]\<rparr>)"
  using assms by (fastforce simp: E2_iff has_all_def members_def map_of_snoc_all)

lemma inv_add_both:
  assumes "E2 s" and "has_all s"
  shows "E2 (s\<lparr>channels := channel_add ''all'' w (channel_add ch w (channels s))\<rparr>)
       \<and> has_all (s\<lparr>channels := channel_add ''all'' w (channel_add ch w (channels s))\<rparr>)"
  unfolding channel_add_def map_channels_comp
  by (rule E2_map_channels [OF assms]) auto

lemma inv_subscribe:
  assumes "E2 s" and "has_all s" and "w \<in> set (members s ''all'') \<or> ch = ''all''"
  shows "E2 (s\<lparr>channels := channel_add ch w (channels s)\<rparr>)
       \<and> has_all (s\<lparr>channels := channel_add ch w (channels s)\<rparr>)"
  unfolding channel_add_def
  by (rule E2_map_channels [OF assms(1,2)]) (use assms(3) in auto)

lemma inv_unsubscribe:
  assumes "E2 s" and "has_all s" and "ch \<noteq> ''all''"
  shows "E2 (s\<lparr>channels := channel_discard ch w (channels s)\<rparr>)
       \<and> has_all (s\<lparr>channels := channel_discard ch w (channels s)\<rparr>)"
  unfolding channel_discard_def
  by (rule E2_map_channels [OF assms(1,2)]) (use assms(3) in auto)

lemma inv_connect:
  assumes "E2 s" and "has_all s"
  shows "E2 (snd (connect tr w ch s)) \<and> has_all (snd (connect tr w ch s))"
proof (cases "accept tr w")
  case False
  with assms show ?thesis by (simp add: connect_def)
next
  case True
  define s2 where "s2 = (if map_of (channels s) ch = None
      then s\<lparr>channels := channels s @ [(ch, [])]\<rparr> else s)"
  have inv2: "E2 s2 \<and> has_all s2"
    using assms inv_add_key [OF assms, of ch] by (simp add: s2_def)
  then have both: "E2 (s2\<lparr>channels := channel_add ''all'' w (channel_add ch w (channels s2))\<rparr>)
      \<and> has_all (s2\<lparr>channels := channel_add ''all'' w (channel_add ch w (channels s2))\<rparr>)"
    using inv_add_both by blast
  have all3: "map_of (channel_add ch w (channels s2)) ''all'' \<noteq> None"
    using inv2 by (simp add: channel_add_def map_of_map_channels has_all_def)
  define md where "md = \<lparr>md_channel = ch, md_connected_at = utcnow_iso tr, md_messages_sent = 0\<rparr>"
  define s5 where "s5 = s2\<lparr>active_connections := active_connections s @ [w],
      channels := channel_add ''all'' w (channel_add ch w (channels s2)),
      connection_metadata := (connection_metadata s)(w \<mapsto> md)\<rparr>"
  have inv5: "E2 s5 \<and> has_all s5"
    by (rule inv_cong_channels [of _ "s2\<lparr>channels := channel_add ''all'' w (channel_add ch w (channels s2))\<rparr>"])
       (use both in \<open>simp_all add: s5_def\<close>)
  have "\<exists>m. snd (connect tr w ch s) = send_personal_message tr m w s5"
    using True all3
    by (auto simp: connect_def Let_def s5_def s2_def md_def split: option.splits)
  then show ?thesis
    using inv5 inv_send_personal_message by auto
qed

lemma inv_handle_message:
  assumes "E2 s" and "has_all s" and "keeps_all s (OpMessage w m)"
  shows "E2 (handle_message tr w m s) \<and> has_all (handle_message tr w m s)"
proof (cases m)
  case (Subscribe c)
  show ?thesis
  proof (cases "truthy c \<and> map_of (channels s) (the c) \<noteq> None")
    case True
    then obtain x where c: "c = Some x" by (cases c) auto
    with assms(3) Subscribe have "w \<in> set (members s ''all'') \<or> x = ''all''" by simp
    from inv_subscribe [OF assms(1,2) this] show ?thesis
      using True c Subscribe by (simp add: inv_send_personal_message)
  next
    case False
    with assms Subscribe show ?thesis by auto
  qed
next
  case (Unsubscribe c)
  show ?thesis
  proof (cases "truthy c \<and> map_of (channels s) (the c) \<noteq> None")
    case True
    then obtain x where c: "c = Some x" by (cases c) auto
    with assms(3) Unsubscribe have "x \<noteq> ''all''" by simp
    from inv_unsubscribe [OF assms(1,2) this] show ?thesis
      using True c Unsubscribe by (simp add: inv_send_personal_message)
  next
    case False
    with assms Unsubscribe show ?thesis by auto
  qed
qed (use assms in \<open>simp_all add: inv_send_personal_message\<close>)

text \<open>
  Claim C8, as amended. Invariant E2 (every socket that is a member of some channel is a
  member of \<open>all\<close>), together with the presence of the key \<open>all\<close>, is kept by connect,
  disconnect, publish with eviction, every client message other than subscribe and
  unsubscribe, unsubscribe from a channel other than \<open>all\<close>, and subscribe by a socket
  that is in \<open>all\<close> or that subscribes to \<open>all\<close>.
\<close>

theorem C8_E2_preserved:
  assumes "E2 s" and "has_all s" and "keeps_all s op"
  shows "E2 (bus_step tr op s) \<and> has_all (bus_step tr op s)"
proof (cases op)
  case (OpConnect w ch)
  then show ?thesis using inv_connect [OF assms(1,2)] by simp
next
  case (OpDisconnect w)
  then show ?thesis using inv_disconnect [OF assms(1,2)] by simp
next
  case (OpMessage w m)
  then show ?thesis using inv_handle_message [OF assms(1,2)] assms(3) by simp
next
  case (OpPublish m ch)
  then show ?thesis using inv_broadcast [OF assms(1,2)] by simp
qed

lemma ch1: "channels one_subscriber = [(''dashboard'', []), (''trading'', [10]), (''positions'', []),
                 (''sessions'', []), (''all'', [10])]"
  by (simp add: one_subscriber_def connect_def init_manager_def good_transport_def Let_def
      channel_add_def map_channels_def send_personal_message_def)

text \<open>
  Claim C8 as stated fails: after a socket connected to \<open>trading\<close> unsubscribes from
  \<open>all\<close>, it is still a member of \<open>trading\<close> and no longer a member of \<open>all\<close>.
\<close>

theorem C8_counterexample:
  "E2 one_subscriber \<and> has_all one_subscriber
   \<and> \<not> E2 (bus_step good_transport (OpMessage 10 (Unsubscribe (Some ''all''))) one_subscriber)"
  by (simp add: E2_def has_all_def members_def ch1 channel_discard_def map_channels_def
        send_personal_message_def good_transport_def)

theorem C8_E2_preserved_witness:
  "E2 one_subscriber \<and> has_all one_subscriber
   \<and> keeps_all one_subscriber (OpMessage 10 (Unsubscribe (Some ''trading'')))
   \<and> E2 (bus_step good_transport (OpMessage 10 (Unsubscribe (Some ''trading''))) one_subscriber)
   \<and> members (bus_step good_transport (OpMessage 10 (Unsubscribe (Some ''trading''))) one_subscriber) ''trading'' = []"
  using C8_E2_preserved [of one_subscriber "OpMessage 10 (Unsubscribe (Some ''trading''))" good_transport]
  by (simp add: E2_def has_all_def members_def ch1 channel_discard_def map_channels_def
        send_personal_message_def good_transport_def)

lemma broadcast_results_map:
  "broadcast_results tr m conns = map (\<lambda>c. (c, send_with_timeout tr c m)) (filter (sendable tr) conns)"
  by (simp add: broadcast_results_def Let_def zip_map2 zip_same_conv_map)

lemma isl_send_with_timeout:
  "isl (send_with_timeout tr c m) \<longleftrightarrow> send_json tr c m = Raises"
  by (simp add: send_with_timeout_def split: send_outcome.splits)

lemma broadcast_disconnected_alt:
  "broadcast_disconnected tr m conns =
     filter (\<lambda>c. \<not> sendable tr c) conns @
     filter (\<lambda>c. send_json tr c m = Raises) (filter (sendable tr) conns)"
  by (simp add: broadcast_disconnected_def broadcast_results_map filter_map comp_def
        isl_send_with_timeout)

lemma set_broadcast_disconnected:
  "set (broadcast_disconnected tr m conns) =
     {c \<in> set conns. \<not> sendable tr c \<or> send_json tr c m = Raises}"
  by (auto simp: broadcast_disconnected_alt)

lemma metadata_fold_count_sent:
  "\<forall>cr \<in> set zs. fst cr = c \<longrightarrow> snd cr \<noteq> Inr True \<Longrightarrow>
     connection_metadata (fold count_sent zs s) c = connection_metadata s c"
proof (induction zs arbitrary: s)
  case Nil
  show ?case by simp
next
  case (Cons z zs)
  have "connection_metadata (count_sent z s) c = connection_metadata s c"
    using Cons.prems
    by (cases z) (auto simp: count_sent_def metadata_bump_sent_other split: sum.splits bool.splits)
  with Cons show ?case by simp
qed

lemma members_fold_disconnect:
  "members (fold disconnect D s) ch = filter (\<lambda>w. w \<notin> set D) (members s ch)"
  by (simp add: members_def channels_fold_disconnect map_of_map_channels split: option.splits)

lemma members_fold_count_sent:
  "members (fold count_sent zs s) ch = members s ch"
  by (simp add: members_def channels_fold_count_sent)

lemma not_in_some_channel_fold_disconnect:
  "c \<in> set D \<Longrightarrow> \<not> in_some_channel (fold disconnect D s) c"
  by (auto simp: in_some_channel_iff channels_fold_disconnect set_map_channels)

text \<open>
  Claim C1, as amended. For every publish to a channel and every socket \<open>c\<close> of that
  channel: if \<open>c\<close> is not in the \<open>CONNECTED\<close> state or its send raises, then after the
  publish \<open>c\<close> is in no channel and has no metadata; if its send only runs into the 5 s
  deadline, \<open>c\<close> is a member of exactly the channels it was a member of and keeps its
  metadata unchanged.
\<close>

theorem C1_eviction:
  assumes "map_of (channels s) channel = Some conns" and "c \<in> set conns"
  shows "(\<not> sendable tr c \<or> send_json tr c (stamp tr m) = Raises \<longrightarrow>
            \<not> in_some_channel (broadcast tr m channel s) c
          \<and> connection_metadata (broadcast tr m channel s) c = None)
       \<and> (sendable tr c \<and> send_json tr c (stamp tr m) = Slow \<longrightarrow>
            (c \<in> set (members (broadcast tr m channel s) ch) \<longleftrightarrow> c \<in> set (members s ch))
          \<and> connection_metadata (broadcast tr m channel s) c = connection_metadata s c)"
proof -
  from assms have ne: "conns \<noteq> []" by auto
  note bc = broadcast_unfold [OF assms(1) ne]
  have evict: "\<not> in_some_channel (broadcast tr m channel s) c
          \<and> connection_metadata (broadcast tr m channel s) c = None"
    if "\<not> sendable tr c \<or> send_json tr c (stamp tr m) = Raises"
  proof -
    from that assms(2) have "c \<in> set (broadcast_disconnected tr (stamp tr m) conns)"
      by (simp add: set_broadcast_disconnected)
    then show ?thesis
      unfolding bc by (simp add: not_in_some_channel_fold_disconnect metadata_fold_disconnect)
  qed
  have keep: "(c \<in> set (members (broadcast tr m channel s) ch) \<longleftrightarrow> c \<in> set (members s ch))
          \<and> connection_metadata (broadcast tr m channel s) c = connection_metadata s c"
    if "sendable tr c \<and> send_json tr c (stamp tr m) = Slow"
  proof -
    from that have nd: "c \<notin> set (broadcast_disconnected tr (stamp tr m) conns)"
      by (simp add: set_broadcast_disconnected)
    have "\<forall>cr \<in> set (broadcast_results tr (stamp tr m) conns). fst cr = c \<longrightarrow> snd cr \<noteq> Inr True"
      using that by (auto simp: broadcast_results_map send_with_timeout_def)
    then have "connection_metadata (fold count_sent (broadcast_results tr (stamp tr m) conns) s) c
        = connection_metadata s c"
      by (rule metadata_fold_count_sent)
    with nd show ?thesis
      unfolding bc
      by (simp add: members_fold_disconnect members_fold_count_sent metadata_fold_disconnect)
  qed
  from evict keep show ?thesis by blast
qed

lemma ch3: "channels three_subscribers = [(''dashboard'', []), (''trading'', [12, 11, 10]), (''positions'', []),
                 (''sessions'', []), (''all'', [12, 11, 10])]"
  by (simp add: three_subscribers_def connect_def init_manager_def good_transport_def Let_def
      channel_add_def map_channels_def send_personal_message_def)

lemma md3: "connection_metadata three_subscribers 12 \<noteq> None"
  by (simp add: three_subscribers_def connect_def init_manager_def good_transport_def Let_def
      channel_add_def map_channels_def send_personal_message_def bump_sent_def)

text \<open>
  Claim C1 as stated fails: of three sockets in \<open>trading\<close>, the one whose send times out
  (\<^verbatim>\<open>_send_with_timeout\<close> returns \<^verbatim>\<open>False\<close>) is still in \<open>trading\<close> and in \<open>all\<close>, with its
  metadata, after the publish.
\<close>

theorem C1_counterexample:
  "map_of (channels three_subscribers) ''trading'' = Some [12, 11, 10]
   \<and> send_with_timeout slow_transport 12 (stamp slow_transport heartbeat) = Inr False
   \<and> members (broadcast slow_transport heartbeat ''trading'' three_subscribers) ''trading'' = [12, 11, 10]
   \<and> members (broadcast slow_transport heartbeat ''trading'' three_subscribers) ''all'' = [12, 11, 10]
   \<and> connection_metadata (broadcast slow_transport heartbeat ''trading'' three_subscribers) 12 \<noteq> None"
proof -
  have r: "broadcast_results slow_transport (stamp slow_transport heartbeat) [12, 11, 10]
     = [(12, Inr False), (11, Inr True), (10, Inr True)]"
    by (simp add: broadcast_results_def sendable_def slow_transport_def send_with_timeout_def)
  have d: "broadcast_disconnected slow_transport (stamp slow_transport heartbeat) [12, 11, 10] = []"
    unfolding broadcast_disconnected_def r by (simp add: sendable_def slow_transport_def)
  have b: "broadcast slow_transport heartbeat ''trading'' three_subscribers
     = fold count_sent [(12, Inr False), (11, Inr True), (10, Inr True)] three_subscribers"
    unfolding broadcast_def ch3 by (simp add: r d)
  have m: "connection_metadata (fold count_sent [(12, Inr False), (11, Inr True), (10, Inr True)] three_subscribers) 12
      = connection_metadata three_subscribers 12"
    by (rule metadata_fold_count_sent) simp
  have mem: "members three_subscribers ''trading'' = [12, 11, 10]" "members three_subscribers ''all'' = [12, 11, 10]"
    by (simp_all add: members_def ch3)
  have s: "send_with_timeout slow_transport 12 (stamp slow_transport heartbeat) = Inr False"
    by (simp add: send_with_timeout_def slow_transport_def)
  show ?thesis
    unfolding b m members_fold_count_sent mem using md3 s by (simp add: ch3)
qed

theorem C1_eviction_witness:
  "map_of (channels three_subscribers) ''trading'' = Some [12, 11, 10]
   \<and> 12 \<in> set [12, 11, 10::nat]
   \<and> send_json failing_transport 12 (stamp failing_transport heartbeat) = Raises
   \<and> \<not> in_some_channel (broadcast failing_transport heartbeat ''trading'' three_subscribers) 12
   \<and> connection_metadata (broadcast failing_transport heartbeat ''trading'' three_subscribers) 12 = None
   \<and> members (broadcast failing_transport heartbeat ''trading'' three_subscribers) ''all'' = [11, 10]"
proof -
  have c: "map_of (channels three_subscribers) ''trading'' = Some [12, 11, 10]"
    by (simp add: ch3)
  have i: "12 \<in> set [12, 11, 10::nat]" by simp
  have r: "send_json failing_transport 12 (stamp failing_transport heartbeat) = Raises"
    by (simp add: failing_transport_def)
  have d: "broadcast_disconnected failing_transport (stamp failing_transport heartbeat) [12, 11, 10] = [12]"
    unfolding broadcast_disconnected_alt by (simp add: sendable_def failing_transport_def)
  have ne: "[12, 11, 10::nat] \<noteq> []" by simp
  have mem: "members (broadcast failing_transport heartbeat ''trading'' three_subscribers) ''all'' = [11, 10]"
    unfolding broadcast_unfold [OF c ne] members_fold_disconnect members_fold_count_sent d
    by (simp add: members_def ch3)
  from C1_eviction [OF c i, of failing_transport heartbeat] r c mem show ?thesis by simp
qed


subsection \<open>Fan-out over no session\<close>





subsection \<open>Credential vault\<close>

lemma decrypt_never_raises: "\<not> isl (decrypt_sensitive_data c x)"
  by (simp add: decrypt_sensitive_data_def split: option.splits)

lemma login_attempt_accepted:
  assumes nf: "\<not> db_fault e (SelectUser user_id)" "\<not> db_fault e (SelectActiveSession user_id)"
              "\<not> db_fault e (CommitSession user_id)"
    and user: "find (\<lambda>u. u_id u = user_id) (users d) = Some user" "u_is_active user"
    and pw: "decrypt_sensitive_data (vault e) (u_encrypted_password user) = Inr password"
    and api: "api_login e k (u_email user) password (u_broker_id user) = Inr lr"
    and tok: "truthy (lr_token lr)" "truthy (py_or (lr_trading_api_token lr) (lr_tradingApiToken lr))"
    and one: "scalar_one_or_none (filter (\<lambda>s. s_user_id s = user_id \<and> s_is_active s) (user_sessions d)) = Inr ex"
  shows "\<exists>r d'. login_attempt e d user_id k = Inr (r, d') \<and> ur_success r"
  using assms by (simp add: login_attempt_def Let_def succeeded_def)

text \<open>
  Claim C2, as amended. When a key is set and the cipher fails on a stored password,
  \<^verbatim>\<open>decrypt_sensitive_data\<close> raises nothing and returns the base64 decoding of the input,
  or the input itself when that decoding fails; \<^verbatim>\<open>login_user\<close> sends that value to
  the upstream as the password, and the login succeeds when the upstream accepts it (no
  database fault, at most one active session of the user).
\<close>

theorem C2_decrypt_falls_back:
  assumes key: "truthy (ENCRYPTION_KEY (vault e))"
    and fail: "fernet_path (vault e) (the (ENCRYPTION_KEY (vault e))) (u_encrypted_password user) = None"
    and nf: "\<not> db_fault e (SelectUser user_id)" "\<not> db_fault e (SelectActiveSession user_id)"
            "\<not> db_fault e (CommitSession user_id)"
    and user: "find (\<lambda>u. u_id u = user_id) (users d) = Some user" "u_is_active user"
    and api: "api_login e k (u_email user) (base64_fallback (vault e) (u_encrypted_password user))
                (u_broker_id user) = Inr lr"
    and tok: "truthy (lr_token lr)" "truthy (py_or (lr_trading_api_token lr) (lr_tradingApiToken lr))"
    and one: "scalar_one_or_none (filter (\<lambda>s. s_user_id s = user_id \<and> s_is_active s) (user_sessions d)) = Inr ex"
  shows "decrypt_sensitive_data (vault e) (u_encrypted_password user)
           = Inr (base64_fallback (vault e) (u_encrypted_password user))
       \<and> ur_success (fst (login_user e d user_id k))"
proof -
  have dec: "decrypt_sensitive_data (vault e) (u_encrypted_password user)
           = Inr (base64_fallback (vault e) (u_encrypted_password user))"
    using key fail by (simp add: decrypt_sensitive_data_def)
  from login_attempt_accepted [OF nf user dec api tok one]
  obtain r d' where "login_attempt e d user_id k = Inr (r, d')" and "ur_success r" by blast
  then have "ur_success (fst (login_user e d user_id k))"
    by (simp add: login_user.simps [of e d user_id k])
  with dec show ?thesis by simp
qed

lemma fernet_legacy: "fernet_path legacy_vault key x = None"
  by (simp add: fernet_path_def legacy_vault_def split: option.splits)

lemma legacy_vault_fields:
  "ENCRYPTION_KEY legacy_vault = Some ''k''"
  "b64decode legacy_vault ''secret'' = None"
  "b64decode legacy_vault ''cGFzcw=='' = Some ''pass''"
  "utf8_decode legacy_vault bytes = Some bytes"
  by (simp_all add: legacy_vault_def)

lemma decrypt_secret: "decrypt_sensitive_data legacy_vault ''secret'' = Inr ''secret''"
  by (simp add: decrypt_sensitive_data_def fernet_legacy base64_fallback_def legacy_vault_fields)

lemma decrypt_pass: "decrypt_sensitive_data legacy_vault ''cGFzcw=='' = Inr ''pass''"
  by (simp add: decrypt_sensitive_data_def fernet_legacy base64_fallback_def legacy_vault_fields)

lemma legacy_vault_of_env: "vault legacy_env = legacy_vault"
  by (simp add: legacy_env_def quiet_env_def)

text \<open>
  Claim C2 as stated fails: with a key that opens nothing, \<^verbatim>\<open>secret\<close> is returned as it
  is and \<^verbatim>\<open>cGFzcw==\<close> is returned base64-decoded, neither as an error; and the user
  whose stored password is \<^verbatim>\<open>cGFzcw==\<close> is logged in.
\<close>

theorem C2_counterexample:
  "fernet_path legacy_vault ''k'' ''secret'' = None
   \<and> decrypt_sensitive_data legacy_vault ''secret'' = Inr ''secret''
   \<and> fernet_path legacy_vault ''k'' ''cGFzcw=='' = None
   \<and> decrypt_sensitive_data legacy_vault ''cGFzcw=='' = Inr ''pass''
   \<and> ur_success (fst (login_user legacy_env legacy_db 7 0)) = True"
proof -
  note a = decrypt_secret and b = decrypt_pass
  have att: "login_attempt legacy_env legacy_db 7 0 =
     Inr ((succeeded 7)\<lparr>ur_session_id := Some 1\<rparr>,
          legacy_db\<lparr>user_sessions := [\<lparr> s_id = 1, s_user_id = 7, s_token = ''T'',
             s_trading_api_token = ''A'', s_trading_account_id = Some ''acc'',
             s_login_at = 1000000000, s_expires_at = Some (1000000000 + seconds 900),
             s_is_active = True, s_last_refresh_at = None \<rparr>]\<rparr>)"
    by (simp add: login_attempt_def legacy_vault_of_env)
       (simp add: b legacy_db_def legacy_user_def empty_db_def legacy_env_def quiet_env_def
          py_or_def next_id_def Let_def)
  have c: "ur_success (fst (login_user legacy_env legacy_db 7 0))"
    by (simp add: login_user.simps [of legacy_env legacy_db 7 0] att succeeded_def)
  from a b c fernet_legacy show ?thesis by simp
qed

theorem C2_decrypt_falls_back_witness:
  "truthy (ENCRYPTION_KEY (vault legacy_env))
   \<and> fernet_path (vault legacy_env) (the (ENCRYPTION_KEY (vault legacy_env)))
        (u_encrypted_password legacy_user) = None
   \<and> find (\<lambda>u. u_id u = 7) (users legacy_db) = Some legacy_user
   \<and> base64_fallback (vault legacy_env) (u_encrypted_password legacy_user) = ''pass''
   \<and> decrypt_sensitive_data (vault legacy_env) (u_encrypted_password legacy_user) = Inr ''pass''
   \<and> ur_success (fst (login_user legacy_env legacy_db 7 0))"
proof -
  have key: "truthy (ENCRYPTION_KEY (vault legacy_env))"
    by (simp add: legacy_vault_of_env legacy_vault_fields)
  have k: "the (ENCRYPTION_KEY (vault legacy_env)) = ''k''"
    by (simp add: legacy_vault_of_env legacy_vault_fields)
  have fail: "fernet_path (vault legacy_env) (the (ENCRYPTION_KEY (vault legacy_env)))
        (u_encrypted_password legacy_user) = None"
    unfolding legacy_vault_of_env by (rule fernet_legacy)
  have nf: "\<not> db_fault legacy_env (SelectUser 7)" "\<not> db_fault legacy_env (SelectActiveSession 7)"
      "\<not> db_fault legacy_env (CommitSession 7)"
    by (simp_all add: legacy_env_def quiet_env_def)
  have user: "find (\<lambda>u. u_id u = 7) (users legacy_db) = Some legacy_user" "u_is_active legacy_user"
    by (simp_all add: legacy_db_def legacy_user_def)
  have fb: "base64_fallback (vault legacy_env) (u_encrypted_password legacy_user) = ''pass''"
    by (simp add: legacy_vault_of_env base64_fallback_def legacy_user_def legacy_vault_fields)
  have api: "api_login legacy_env 0 (u_email legacy_user)
      (base64_fallback (vault legacy_env) (u_encrypted_password legacy_user)) (u_broker_id legacy_user)
      = Inr \<lparr> lr_token = Some ''T'', lr_trading_api_token = Some ''A'', lr_tradingApiToken = None,
                lr_trading_account_id = Some ''acc'', lr_tradingAccountId = None \<rparr>"
    unfolding fb by (simp add: legacy_env_def)
  have one: "scalar_one_or_none (filter (\<lambda>s. s_user_id s = 7 \<and> s_is_active s) (user_sessions legacy_db)) = Inr None"
    by (simp add: legacy_db_def empty_db_def)
  from C2_decrypt_falls_back [OF key fail nf user api _ _ one] fb key fail user(1)
  show ?thesis by (simp add: py_or_def)
qed

subsection \<open>Sweep\<close>

lemma seconds_pos: "0 < seconds 300"
  by (simp add: seconds_def)

lemma classify_sessions_filter:
  "classify_sessions now ss =
     (map s_user_id (filter (healthy_spec now) ss),
      map s_user_id (filter (expiring_soon_spec now) ss),
      map s_user_id (filter (expired_spec now) ss))"
proof (induction ss)
  case Nil
  show ?case by simp
next
  case (Cons s ss)
  show ?case
  proof (cases "s_expires_at s")
    case None
    with Cons show ?thesis
      by (simp add: healthy_spec_def expiring_soon_spec_def expired_spec_def)
  next
    case (Some t)
    with Cons seconds_pos show ?thesis
      by (simp add: healthy_spec_def expiring_soon_spec_def expired_spec_def Let_def)
  qed
qed






lemma sweep_active:
  "filter s_is_active (user_sessions sweep_db) =
     [session_of 21 (1000000000 + seconds 600), session_of 22 (1000000000 + seconds 120),
      session_of 23 (1000000000 - seconds 1)]"
  by (simp add: sweep_db_def empty_db_def session_of_def)

lemma sweep_classes:
  "classify_sessions 1000000000 (filter s_is_active (user_sessions sweep_db)) = ([21], [22], [23])"
  unfolding sweep_active classify_sessions_filter
  by (simp add: healthy_spec_def expiring_soon_spec_def expired_spec_def session_of_def seconds_def)

lemma quiet_fields:
  "utcnow quiet_env = 1000000000"
  "db_fault quiet_env c = False"
  "max_retry_attempts quiet_env = 3"
  "api_refresh_token quiet_env tok = Inl (MatchTradeAPIError ''Unauthorized'')"
  by (simp_all add: quiet_env_def)

lemma update_fault_fields:
  "utcnow update_fault_env = 1000000000"
  "db_fault update_fault_env c = (c = UpdateSessionInactive 23)"
  "max_retry_attempts update_fault_env = 3"
  "api_refresh_token update_fault_env tok = Inl (MatchTradeAPIError ''Unauthorized'')"
  by (simp_all add: update_fault_env_def quiet_env_def)

lemma login_unknown_user:
  assumes "\<not> db_fault e (SelectUser uid)" and "users d = []"
  shows "login_user e d uid k = (failed uid ''User not found'', d)"
  using assms by (simp add: login_user.simps [of e d uid k] login_attempt_def)

lemma refresh_22:
  assumes "\<not> db_fault e (SelectActiveSession 22)" "\<not> db_fault e (SelectUser 22)"
    and "api_refresh_token e ''T'' = Inl (MatchTradeAPIError ''Unauthorized'')"
  shows "refresh_token e sweep_db 22 = (failed 22 ''User not found'', sweep_db)"
proof -
  have f: "filter (\<lambda>s. s_user_id s = 22 \<and> s_is_active s) (user_sessions sweep_db)
      = [session_of 22 (1000000000 + seconds 120)]"
    by (simp add: sweep_db_def empty_db_def session_of_def)
  have att: "refresh_attempt e sweep_db 22 = Inl (MatchTradeAPIError ''Unauthorized'')"
    using assms by (simp add: refresh_attempt_def f) (simp add: session_of_def)
  have u: "users sweep_db = []" by (simp add: sweep_db_def empty_db_def)
  show ?thesis
    by (simp add: refresh_token_def att login_unknown_user [OF assms(2) u])
qed

lemma sweep_quiet:
  "check_session_health quiet_env sweep_db =
     Inr (sweep_report, sweep_db\<lparr>user_sessions :=
       [session_of 21 (1000000000 + seconds 600), session_of 22 (1000000000 + seconds 120),
        (session_of 23 (1000000000 - seconds 1))\<lparr>s_is_active := False\<rparr>]\<rparr>)"
proof -
  have r: "refresh_token quiet_env sweep_db 22 = (failed 22 ''User not found'', sweep_db)"
    by (rule refresh_22) (simp_all add: quiet_fields)
  have us: "user_sessions sweep_db = [session_of 21 (1000000000 + seconds 600),
      session_of 22 (1000000000 + seconds 120), session_of 23 (1000000000 - seconds 1)]"
    by (simp add: sweep_db_def empty_db_def)
  have de: "deactivate_expired quiet_env (user_sessions sweep_db) [23] =
     Inr [session_of 21 (1000000000 + seconds 600), session_of 22 (1000000000 + seconds 120),
        (session_of 23 (1000000000 - seconds 1))\<lparr>s_is_active := False\<rparr>]"
    unfolding us by (simp add: quiet_fields) (simp add: session_of_def)
  have len: "length (filter s_is_active (user_sessions sweep_db)) = 3"
    by (simp add: sweep_active)
  show ?thesis
    unfolding check_session_health_def Let_def quiet_fields sweep_classes len
    by (simp add: r quiet_fields sweep_report_def us) (simp add: session_of_def)
qed


subsection \<open>What the collection entry points raise\<close>

lemma login_all_users_raises:
  "login_all_users e d = Inl x \<Longrightarrow> db_fault e SelectActiveUsers"
  by (auto simp: login_all_users_def Let_def split: if_splits prod.splits)

lemma refresh_all_tokens_raises:
  "refresh_all_tokens e d = Inl x \<Longrightarrow> db_fault e SelectActiveSessions"
  by (auto simp: refresh_all_tokens_def Let_def split: if_splits prod.splits)

lemma get_active_sessions_raises:
  "get_active_sessions e d = Inl x \<Longrightarrow> db_fault e SelectActiveSessions"
  by (auto simp: get_active_sessions_def split: if_splits)

lemma execute_signal_for_all_raises:
  "execute_signal_for_all e d sg = Inl x \<Longrightarrow> db_fault e SelectActiveSessions"
  by (auto simp: execute_signal_for_all_def Let_def
        split: if_splits sum.splits dest: get_active_sessions_raises)

lemma deactivate_expired_raises:
  "deactivate_expired e ss uids = Inl x \<Longrightarrow> \<exists>uid \<in> set uids. db_fault e (UpdateSessionInactive uid)"
  by (induction e ss uids rule: deactivate_expired.induct) (auto split: if_splits)

lemma check_session_health_raises:
  assumes "check_session_health e d = Inl x"
  shows "db_fault e SelectActiveSessions
       \<or> (\<exists>uid \<in> set (map s_user_id (filter (expired_spec (utcnow e))
                (filter s_is_active (user_sessions d)))). db_fault e (UpdateSessionInactive uid))"
proof (cases "db_fault e SelectActiveSessions")
  case True
  then show ?thesis by simp
next
  case False
  obtain h s x' where c: "classify_sessions (utcnow e) (filter s_is_active (user_sessions d)) = (h, s, x')"
    by (cases "classify_sessions (utcnow e) (filter s_is_active (user_sessions d))") auto
  then have x': "x' = map s_user_id (filter (expired_spec (utcnow e)) (filter s_is_active (user_sessions d)))"
    by (simp add: classify_sessions_filter)
  from assms False c obtain ss where "deactivate_expired e ss x' = Inl x"
    by (auto simp: check_session_health_def Let_def split: if_splits sum.splits)
  from deactivate_expired_raises [OF this] x' show ?thesis by blast
qed

text \<open>
  Claim C4 fails on the sweep: with one expired session and a database that raises on
  the \<^verbatim>\<open>UPDATE\<close> that deactivates it, \<^verbatim>\<open>check_session_health\<close> raises that exception to its
  caller instead of returning its report.
\<close>

theorem C4_sweep_raises:
  "db_fault update_fault_env (UpdateSessionInactive 23)
   \<and> hr_expired_user_ids sweep_report = [23]
   \<and> check_session_health quiet_env sweep_db \<noteq> Inl (DBError ''update user_sessions'')
   \<and> check_session_health update_fault_env sweep_db = Inl (DBError ''update user_sessions'')"
proof -
  have r: "refresh_token update_fault_env sweep_db 22 = (failed 22 ''User not found'', sweep_db)"
    by (rule refresh_22) (simp_all add: update_fault_fields)
  have us: "user_sessions sweep_db = [session_of 21 (1000000000 + seconds 600),
      session_of 22 (1000000000 + seconds 120), session_of 23 (1000000000 - seconds 1)]"
    by (simp add: sweep_db_def empty_db_def)
  have de: "deactivate_expired update_fault_env (user_sessions sweep_db) [23] =
     Inl (DBError ''update user_sessions'')"
    by (simp add: update_fault_fields)
  have d: "check_session_health update_fault_env sweep_db = Inl (DBError ''update user_sessions'')"
    unfolding check_session_health_def Let_def update_fault_fields sweep_classes
    by (simp add: r update_fault_fields)
  have a: "db_fault update_fault_env (UpdateSessionInactive 23)"
    by (simp add: update_fault_fields)
  have b: "hr_expired_user_ids sweep_report = [23]"
    by (simp add: sweep_report_def)
  have c: "check_session_health quiet_env sweep_db \<noteq> Inl (DBError ''update user_sessions'')"
    by (simp add: sweep_quiet)
  from a b c d show ?thesis by blast
qed

subsection \<open>Recording a trade\<close>





lemma record_trade_swallows:
  "isl (record_trade_body e d user_id position cr) \<Longrightarrow> record_trade e d user_id position cr = d"
  by (cases "record_trade_body e d user_id position cr") (simp_all add: record_trade_def)





lemma position_X_id: "position_id_of position_X = Some ''X''" "p_symbol position_X = Some ''BTCUSD''"
  by (simp_all add: position_id_of_def position_X_def py_or_def)

lemma tie_candidates:
  "open_order_candidates tie_db 7 (Some ''BTCUSD'') = [order_of 11 500, order_of 12 500]"
  by (simp add: open_order_candidates_def tie_db_def empty_db_def order_of_def)




lemma no_uuid_row:
  "filter (\<lambda>ord. o_order_uuid ord = Some ''X'' \<and> o_user_id ord = 7) (orders tie_db) = []"
  "filter (\<lambda>ord. o_order_uuid ord = Some ''X'' \<and> o_user_id ord = 7) (orders newer_db) = []"
  by (simp_all add: tie_db_def newer_db_def empty_db_def order_of_def)







subsection \<open>Auto-close policy\<close>











lemma commit_fault_fields:
  "db_fault commit_fault_env c = (c = CommitTrade 7)"
  "utcnow commit_fault_env = 1000000000"
  "order_by_created_at_desc commit_fault_env rs = sort_key (\<lambda>ord. - o_created_at ord) rs"
  "api_close_position commit_fault_env token tat pid = Inr close_X"
  "api_get_opened_positions commit_fault_env token tat = Inr [position_X]"
  by (simp_all add: commit_fault_env_def closing_env_def quiet_env_def)







subsection \<open>The per-user close and a failing trade record\<close>

lemma fold_record_closed_swallows:
  assumes "\<forall>p \<in> set ps. \<forall>cr. isl (record_trade_body e d user_id p cr)"
    and "length rs = length ps"
  shows "fold (record_closed e user_id) (zip ps rs) d = d"
  using assms
proof (induction ps arbitrary: rs)
  case Nil
  then show ?case by simp
next
  case (Cons p ps)
  then obtain r rs' where rs: "rs = r # rs'" by (cases rs) auto
  have step: "record_closed e user_id (p, r) d = d"
  proof (cases r)
    case (Inl x)
    then show ?thesis by (simp add: record_closed_def)
  next
    case (Inr cr)
    from Cons.prems(1) have "isl (record_trade_body e d user_id p cr)" by simp
    from record_trade_swallows [OF this] Inr show ?thesis by (simp add: record_closed_def)
  qed
  from Cons.prems have "fold (record_closed e user_id) (zip ps rs') d = d"
    by (intro Cons.IH) (simp_all add: rs)
  with step show ?case by (simp add: rs)
qed

lemma session_7_tokens: "session_tokens session_7 = Inr (''T'', ''A'')" "sd_user_id session_7 = 7"
  by (simp_all add: session_tokens_def session_7_def)

lemma find_order_tie_commit_fault:
  "find_order commit_fault_env tie_db 7 position_X = Inr (Some (order_of 11 500))"
  by (simp add: find_order_def Let_def position_X_id commit_fault_fields no_uuid_row
        select_open_order_def tie_candidates order_of_def)

lemma record_trade_body_commit_fault:
  "record_trade_body commit_fault_env tie_db 7 position_X cr = Inl (DBError ''commit'')"
  by (simp add: record_trade_body_def find_order_tie_commit_fault commit_fault_fields)

text \<open>
  Claim C10. Whatever is raised inside the \<^verbatim>\<open>try\<close> block of \<^verbatim>\<open>_record_trade\<close> is swallowed:
  the function returns and the database is as it was. The per-user close, for a session
  that carries its tokens and an upstream that lists at least one position to close,
  reports success and counts every close the upstream accepted, whatever happens to the
  trade records; and when recording fails for each of these positions the database is
  left as it was, so the orders stay as they were and no trade is inserted.
\<close>

theorem C10_record_trade_failure_swallowed:
  assumes tok: "session_tokens session = Inr (token, trading_api_token)"
    and pos: "api_get_opened_positions e token trading_api_token = Inr all_positions"
    and sel: "positions = (if truthy symbol then filter (\<lambda>p. p_symbol p = symbol) all_positions
                           else all_positions)"
    and ne: "positions \<noteq> []"
  shows "fst (close_positions_for_user e symbol d session)
           = Inr ((succeeded (sd_user_id session))
                    \<lparr>ur_closed_count :=
                       Some (length (filter (\<lambda>p. \<not> isl (api_close_position e token trading_api_token
                                                         (py_or (p_id p) (p_uuid p)))) positions))\<rparr>)
       \<and> ((\<forall>p \<in> set positions. \<forall>cr. isl (record_trade_body e d (sd_user_id session) p cr))
            \<longrightarrow> snd (close_positions_for_user e symbol d session) = d)
       \<and> (\<forall>d0 p cr. isl (record_trade_body e d0 (sd_user_id session) p cr)
            \<longrightarrow> record_trade e d0 (sd_user_id session) p cr = d0)"
proof -
  let ?close = "\<lambda>p. api_close_position e token trading_api_token (py_or (p_id p) (p_uuid p))"
  have unf: "close_positions_for_user e symbol d session =
      (Inr ((succeeded (sd_user_id session))
              \<lparr>ur_closed_count := Some (length (filter (\<lambda>r. \<not> isl r) (map ?close positions)))\<rparr>),
       fold (record_closed e (sd_user_id session)) (zip positions (map ?close positions)) d)"
    using ne unfolding sel by (simp add: close_positions_for_user_def Let_def tok pos)
  have len: "length (filter (\<lambda>r. \<not> isl r) (map ?close positions))
             = length (filter (\<lambda>p. \<not> isl (?close p)) positions)"
    by (simp add: filter_map comp_def)
  have a: "fst (close_positions_for_user e symbol d session)
           = Inr ((succeeded (sd_user_id session))
                    \<lparr>ur_closed_count := Some (length (filter (\<lambda>p. \<not> isl (?close p)) positions))\<rparr>)"
    unfolding unf len [symmetric] by simp
  have b: "(\<forall>p \<in> set positions. \<forall>cr. isl (record_trade_body e d (sd_user_id session) p cr))
            \<longrightarrow> snd (close_positions_for_user e symbol d session) = d"
  proof
    assume h: "\<forall>p \<in> set positions. \<forall>cr. isl (record_trade_body e d (sd_user_id session) p cr)"
    show "snd (close_positions_for_user e symbol d session) = d"
      unfolding unf using fold_record_closed_swallows [OF h, of "map ?close positions"] by simp
  qed
  have c: "\<forall>d0 p cr. isl (record_trade_body e d0 (sd_user_id session) p cr)
            \<longrightarrow> record_trade e d0 (sd_user_id session) p cr = d0"
    using record_trade_swallows by blast
  from a b c show ?thesis by blast
qed

theorem C10_record_trade_failure_swallowed_witness:
  "session_tokens session_7 = Inr (''T'', ''A'')
   \<and> api_get_opened_positions commit_fault_env ''T'' ''A'' = Inr [position_X]
   \<and> api_close_position commit_fault_env ''T'' ''A'' (py_or (p_id position_X) (p_uuid position_X))
       = Inr close_X
   \<and> record_trade_body commit_fault_env tie_db 7 position_X close_X = Inl (DBError ''commit'')
   \<and> close_positions_for_user commit_fault_env None tie_db session_7
       = (Inr ((succeeded 7)\<lparr>ur_closed_count := Some 1\<rparr>), tie_db)
   \<and> ur_success (succeeded 7) = True
   \<and> map o_status (orders tie_db) = [''OPEN'', ''OPEN'']
   \<and> trades tie_db = []"
proof -
  have sel: "[position_X] = (if truthy (None :: string option) then filter (\<lambda>p. p_symbol p = None) [position_X]
                             else [position_X])"
    by simp
  have ne: "[position_X] \<noteq> []" by simp
  note t = C10_record_trade_failure_swallowed
             [OF session_7_tokens(1) commit_fault_fields(5) sel ne, of tie_db]
  have f: "fst (close_positions_for_user commit_fault_env None tie_db session_7)
           = Inr ((succeeded 7)\<lparr>ur_closed_count := Some 1\<rparr>)"
    using t by (simp add: session_7_tokens commit_fault_fields)
  have s: "snd (close_positions_for_user commit_fault_env None tie_db session_7) = tie_db"
    using t by (simp add: session_7_tokens record_trade_body_commit_fault)
  have c: "close_positions_for_user commit_fault_env None tie_db session_7
       = (Inr ((succeeded 7)\<lparr>ur_closed_count := Some 1\<rparr>), tie_db)"
    using f s by (metis prod.collapse)
  have o: "map o_status (orders tie_db) = [''OPEN'', ''OPEN'']" "trades tie_db = []"
    by (simp_all add: tie_db_def empty_db_def order_of_def)
  have u: "ur_success (succeeded 7) = True"
    by (simp add: succeeded_def)
  from c o u session_7_tokens(1) commit_fault_fields(4,5) record_trade_body_commit_fault
  show ?thesis by blast
qed

subsection \<open>The sessions the orchestrator is given\<close>

text \<open>
  The dicts of \<^verbatim>\<open>get_active_sessions\<close> have no key \<^verbatim>\<open>token\<close>: with them every per-user
  function of the orchestrator raises \<^verbatim>\<open>KeyError\<close> before its \<^verbatim>\<open>try\<close>. The theorems on
  these functions are therefore stated for session dicts that carry both tokens.
\<close>

lemma active_session_tokens:
  assumes "get_active_sessions e d = Inr sessions" and "session \<in> set sessions"
  shows "session_tokens session = Inl (KeyError ''token'')"
  using assms
  by (auto simp: get_active_sessions_def session_tokens_def split: if_splits)

lemma active_session_close_raises:
  assumes "get_active_sessions e d = Inr sessions" and "session \<in> set sessions"
  shows "close_positions_for_user e symbol d' session = (Inl (KeyError ''token''), d')"
  using active_session_tokens [OF assms] by (simp add: close_positions_for_user_def)

lemma active_session_check_raises:
  assumes "get_active_sessions e d = Inr sessions" and "session \<in> set sessions"
  shows "check_user_positions e w session = Inl (KeyError ''token'')"
  using active_session_tokens [OF assms] by (simp add: check_user_positions_def)

end
